theory Spec2Isabelle
  imports Main "HOL-Library.Word" "HOL-Library.AList"
begin

unbundle bit_operations_syntax

section \<open>Machine types, faults and the process heap\<close>

text \<open>
  The allocators of \<^verbatim>\<open>DrpLib/Allocators\<close> are modelled for an LP64 target:
  \<^verbatim>\<open>size_t\<close> and pointers are 64-bit words (arithmetic wraps modulo \<open>2 ^ 64\<close>,
  comparisons are unsigned), the null pointer is the word \<open>0\<close>.

  An operation either returns, or the process ends: \<^verbatim>\<open>abort()\<close> (\<^verbatim>\<open>ALLOC_BAD\<close>), a
  failed \<^verbatim>\<open>assert\<close> (assertions are compiled in), a write through a null pointer, the
  use of a pointer that names no object, or the overflow of a signed counter.  Every such
  end is a value \<open>Inl fault\<close>.
\<close>

type_synonym size_t = "64 word"
type_synonym ptr = "64 word"

datatype fault = Abort | AssertFail | NullDeref | BadPointer | SignedOverflow

type_synonym 'a result = "fault + 'a"

text \<open>
  The process heap is the environment of the program.  Its answers to allocating calls
  are an input: \<open>answers\<close> lists the addresses the next calls of \<^verbatim>\<open>malloc\<close>,
  \<^verbatim>\<open>calloc\<close> and \<^verbatim>\<open>realloc\<close> return (\<open>0\<close> is a failed call, and so is every call once the
  list is used up).  \<open>mem\<close> is the byte memory, \<open>released\<close> the addresses handed back by
  \<^verbatim>\<open>free\<close>, latest first.
\<close>

record heap =
  answers :: "ptr list"
  mem :: "ptr \<Rightarrow> 8 word"
  released :: "ptr list"

definition memcpy :: "(ptr \<Rightarrow> 8 word) \<Rightarrow> ptr \<Rightarrow> ptr \<Rightarrow> size_t \<Rightarrow> (ptr \<Rightarrow> 8 word)" where
  "memcpy m dst src n = (\<lambda>a. if a - dst < n then m (src + (a - dst)) else m a)"

definition memset :: "(ptr \<Rightarrow> 8 word) \<Rightarrow> ptr \<Rightarrow> 8 word \<Rightarrow> size_t \<Rightarrow> (ptr \<Rightarrow> 8 word)" where
  "memset m dst v n = (\<lambda>a. if a - dst < n then v else m a)"

definition malloc :: "heap \<Rightarrow> size_t \<Rightarrow> ptr \<times> heap" where
  "malloc h n = (case answers h of [] \<Rightarrow> (0, h) | p # ps \<Rightarrow> (p, h\<lparr>answers := ps\<rparr>))"

definition calloc :: "heap \<Rightarrow> size_t \<Rightarrow> size_t \<Rightarrow> ptr \<times> heap" where
  "calloc h k n =
     (case answers h of
        [] \<Rightarrow> (0, h)
      | p # ps \<Rightarrow>
          if p = 0 then (0, h\<lparr>answers := ps\<rparr>)
          else (p, h\<lparr>answers := ps, mem := memset (mem h) p 0 (k * n)\<rparr>))"

definition free :: "heap \<Rightarrow> ptr \<Rightarrow> heap" where
  "free h p = (if p = 0 then h else h\<lparr>released := p # released h\<rparr>)"

text \<open>
  \<^verbatim>\<open>sane_realloc(ptr, orig_size, size)\<close> is \<^verbatim>\<open>realloc(ptr, size)\<close>.  A failed call leaves
  the old block alone; a call that moves the block copies its bytes and releases the old
  address.
\<close>

definition sane_realloc :: "heap \<Rightarrow> ptr \<Rightarrow> size_t \<Rightarrow> size_t \<Rightarrow> ptr \<times> heap" where
  "sane_realloc h p orig_size n =
     (case answers h of
        [] \<Rightarrow> (0, h)
      | q # qs \<Rightarrow>
          if q = 0 then (0, h\<lparr>answers := qs\<rparr>)
          else if p = 0 \<or> q = p then (q, h\<lparr>answers := qs\<rparr>)
          else (q, h\<lparr>answers := qs,
                     mem := memcpy (mem h) q p (min orig_size n),
                     released := p # released h\<rparr>))"

section \<open>The arena allocator (\<^verbatim>\<open>arena_allocator.h\<close>)\<close>

definition ARENA_PAGE_SIZE :: size_t where "ARENA_PAGE_SIZE = 4096"
definition ARENA_SIZE :: size_t where "ARENA_SIZE = ARENA_PAGE_SIZE * 128"
definition BIG_ALLOC_THRESH :: size_t where "BIG_ALLOC_THRESH = ARENA_SIZE div 2"

text \<open>\<^verbatim>\<open>ARENA_SIZE - sizeof(void*) - sizeof(size_t)\<close>: the bytes of \<^verbatim>\<open>buff\<close>.\<close>

definition ARENA_BUFFER_SIZE :: size_t where "ARENA_BUFFER_SIZE = ARENA_SIZE - 8 - 8"

text \<open>\<^verbatim>\<open>sizeof(BigAllocation)\<close>: two links, the size and five words of padding.\<close>

definition sizeof_BigAllocation :: size_t where "sizeof_BigAllocation = 64"

text \<open>
  \<^verbatim>\<open>struct Arena {prev; used; buff[ARENA_BUFFER_SIZE]}\<close>.  The chain through \<^verbatim>\<open>prev\<close> is
  a list whose head is the current block (\<open>[]\<close> is \<^verbatim>\<open>aa->arena == NULL\<close>); a block is
  its address and its \<^verbatim>\<open>used\<close> counter; the bytes of \<^verbatim>\<open>buff\<close> are those of the heap's
  memory from \<open>buff\<close> on.
\<close>

record Arena =
  base :: ptr
  used :: size_t

definition buff :: "Arena \<Rightarrow> ptr" where
  "buff a = base a + 16"

text \<open>
  A \<^verbatim>\<open>BigListNode*\<close> is null, the address of the allocator's sentinel
  \<^verbatim>\<open>aa->big_allocations\<close>, or the address of a \<^verbatim>\<open>BigAllocation\<close> header.  The headers
  live in an explicit store keyed by their address.
\<close>

datatype node_ptr = NullNode | Sentinel | BigNode ptr

record BigListNode =
  nxt :: node_ptr
  prv :: node_ptr

record BigAllocation = BigListNode +
  bsize :: size_t

record ArenaAllocator =
  arena :: "Arena list"
  big_allocations :: BigListNode
  bigs :: "(ptr \<times> BigAllocation) list"

definition ArenaAllocator_round_size_up :: "size_t \<Rightarrow> size_t" where
  "ArenaAllocator_round_size_up sz =
     (let remainder = sz AND 7 in
      if remainder \<noteq> 0 then sz + (8 - remainder) else sz)"

text \<open>Writes through a \<^verbatim>\<open>BigListNode*\<close>: \<^verbatim>\<open>n->next = v\<close> and \<^verbatim>\<open>n->prev = v\<close>.\<close>

definition set_next :: "node_ptr \<Rightarrow> node_ptr \<Rightarrow> ArenaAllocator \<Rightarrow> ArenaAllocator result" where
  "set_next n v aa =
     (case n of
        NullNode \<Rightarrow> Inl NullDeref
      | Sentinel \<Rightarrow> Inr (aa\<lparr>big_allocations := (big_allocations aa)\<lparr>nxt := v\<rparr>\<rparr>)
      | BigNode p \<Rightarrow>
          (case map_of (bigs aa) p of
             None \<Rightarrow> Inl BadPointer
           | Some b \<Rightarrow> Inr (aa\<lparr>bigs := AList.update p (b\<lparr>nxt := v\<rparr>) (bigs aa)\<rparr>)))"

definition set_prev :: "node_ptr \<Rightarrow> node_ptr \<Rightarrow> ArenaAllocator \<Rightarrow> ArenaAllocator result" where
  "set_prev n v aa =
     (case n of
        NullNode \<Rightarrow> Inl NullDeref
      | Sentinel \<Rightarrow> Inr (aa\<lparr>big_allocations := (big_allocations aa)\<lparr>prv := v\<rparr>\<rparr>)
      | BigNode p \<Rightarrow>
          (case map_of (bigs aa) p of
             None \<Rightarrow> Inl BadPointer
           | Some b \<Rightarrow> Inr (aa\<lparr>bigs := AList.update p (b\<lparr>prv := v\<rparr>) (bigs aa)\<rparr>)))"

text \<open>
  \<^verbatim>\<open>Big_init(prev, ba)\<close>: \<^verbatim>\<open>ba->next = NULL; ba->prev = prev; prev->next = &ba->node\<close>.
  The header is fresh; its \<^verbatim>\<open>size\<close> is written by the caller (here it starts as \<open>0\<close>).
  A null \<open>ba\<close> (the heap failed and nobody checked) is a write through a null pointer.
\<close>

definition Big_init :: "node_ptr \<Rightarrow> ptr \<Rightarrow> ArenaAllocator \<Rightarrow> ArenaAllocator result" where
  "Big_init prev ba aa =
     (if ba = 0 then Inl NullDeref
      else set_next prev (BigNode ba)
             (aa\<lparr>bigs := AList.update ba \<lparr>nxt = NullNode, prv = prev, bsize = 0\<rparr> (bigs aa)\<rparr>))"

text \<open>\<^verbatim>\<open>Allocator_alloc(MALLOCATOR, n)\<close> is \<^verbatim>\<open>malloc(n)\<close>, and so on for the other calls.\<close>

definition Big_alloc ::
  "ArenaAllocator \<Rightarrow> heap \<Rightarrow> node_ptr \<Rightarrow> size_t \<Rightarrow> (ptr \<times> ArenaAllocator \<times> heap) result" where
  "Big_alloc aa h prev sz =
     (case malloc h (sz + sizeof_BigAllocation) of
        (ba, h') \<Rightarrow>
          (case Big_init prev ba aa of
             Inl f \<Rightarrow> Inl f
           | Inr aa' \<Rightarrow>
               (case map_of (bigs aa') ba of
                  None \<Rightarrow> Inl BadPointer
                | Some b \<Rightarrow>
                    Inr (ba + sizeof_BigAllocation,
                         aa'\<lparr>bigs := AList.update ba (b\<lparr>bsize := sz\<rparr>) (bigs aa')\<rparr>, h'))))"

definition Big_zalloc ::
  "ArenaAllocator \<Rightarrow> heap \<Rightarrow> node_ptr \<Rightarrow> size_t \<Rightarrow> (ptr \<times> ArenaAllocator \<times> heap) result" where
  "Big_zalloc aa h prev sz =
     (case calloc h 1 (sz + sizeof_BigAllocation) of
        (ba, h') \<Rightarrow>
          (case Big_init prev ba aa of
             Inl f \<Rightarrow> Inl f
           | Inr aa' \<Rightarrow>
               (case map_of (bigs aa') ba of
                  None \<Rightarrow> Inl BadPointer
                | Some b \<Rightarrow>
                    Inr (ba + sizeof_BigAllocation,
                         aa'\<lparr>bigs := AList.update ba (b\<lparr>bsize := sz\<rparr>) (bigs aa')\<rparr>, h'))))"

text \<open>
  \<^verbatim>\<open>Big_realloc\<close> reads the links, reallocates the header with its payload, and patches
  the neighbours to the new address.  The header's \<^verbatim>\<open>size\<close> field is not written.
\<close>

definition Big_realloc ::
  "ArenaAllocator \<Rightarrow> heap \<Rightarrow> ptr \<Rightarrow> size_t \<Rightarrow> size_t \<Rightarrow> (ptr \<times> ArenaAllocator \<times> heap) result" where
  "Big_realloc aa h a old sz =
     (let ba = a - sizeof_BigAllocation in
      case map_of (bigs aa) ba of
        None \<Rightarrow> Inl BadPointer
      | Some b \<Rightarrow>
          (let prev = prv b; next = nxt b in
           case sane_realloc h ba (old + sizeof_BigAllocation) (sz + sizeof_BigAllocation) of
             (ba', h') \<Rightarrow>
               if ba' = 0 then Inr (0, aa, h')
               else
                 (let aa1 = aa\<lparr>bigs := AList.update ba' b (AList.delete ba (bigs aa))\<rparr> in
                  case (if prev \<noteq> NullNode then set_next prev (BigNode ba') aa1 else Inr aa1) of
                    Inl f \<Rightarrow> Inl f
                  | Inr aa2 \<Rightarrow>
                      (case (if next \<noteq> NullNode then set_prev next (BigNode ba') aa2 else Inr aa2) of
                         Inl f \<Rightarrow> Inl f
                       | Inr aa3 \<Rightarrow> Inr (ba' + sizeof_BigAllocation, aa3, h')))))"

definition Big_free :: "ArenaAllocator \<Rightarrow> heap \<Rightarrow> ptr \<Rightarrow> size_t \<Rightarrow> (ArenaAllocator \<times> heap) result" where
  "Big_free aa h a sz =
     (if a = 0 then Inr (aa, h)
      else
        (let ba = a - sizeof_BigAllocation in
         case map_of (bigs aa) ba of
           None \<Rightarrow> Inl BadPointer
         | Some b \<Rightarrow>
             (let prev = prv b; next = nxt b;
                  h' = free h ba;
                  aa1 = aa\<lparr>bigs := AList.delete ba (bigs aa)\<rparr> in
              case (if prev \<noteq> NullNode then set_next prev next aa1 else Inr aa1) of
                Inl f \<Rightarrow> Inl f
              | Inr aa2 \<Rightarrow>
                  (case (if next \<noteq> NullNode then set_prev next prev aa2 else Inr aa2) of
                     Inl f \<Rightarrow> Inl f
                   | Inr aa3 \<Rightarrow> Inr (aa3, h')))))"

text \<open>\<^verbatim>\<open>ArenaAllocator_alloc_arena\<close> returns 1 when the heap fails, else 0.\<close>

definition ArenaAllocator_alloc_arena :: "ArenaAllocator \<Rightarrow> heap \<Rightarrow> int \<times> ArenaAllocator \<times> heap" where
  "ArenaAllocator_alloc_arena aa h =
     (case malloc h ARENA_SIZE of
        (p, h') \<Rightarrow>
          if p = 0 then (1, aa, h')
          else (0, aa\<lparr>arena := \<lparr>base = p, used = 0\<rparr> # arena aa\<rparr>, h'))"

definition ArenaAllocator_alloc ::
  "ArenaAllocator \<Rightarrow> heap \<Rightarrow> size_t \<Rightarrow> (ptr \<times> ArenaAllocator \<times> heap) result" where
  "ArenaAllocator_alloc aa h size0 =
     (let sz = ArenaAllocator_round_size_up size0 in
      if sz > BIG_ALLOC_THRESH then Big_alloc aa h Sentinel sz
      else
        (case (case arena aa of
                 [] \<Rightarrow> ArenaAllocator_alloc_arena aa h
               | a # _ \<Rightarrow>
                   (let remainder = ARENA_BUFFER_SIZE - used a in
                    if sz > remainder then ArenaAllocator_alloc_arena aa h else (0, aa, h))) of
           (rc, aa', h') \<Rightarrow>
             if rc \<noteq> 0 then Inr (0, aa', h')
             else
               (case arena aa' of
                  [] \<Rightarrow> Inl NullDeref
                | a # rest \<Rightarrow>
                    Inr (buff a + used a, aa'\<lparr>arena := a\<lparr>used := used a + sz\<rparr> # rest\<rparr>, h'))))"

definition ArenaAllocator_zalloc ::
  "ArenaAllocator \<Rightarrow> heap \<Rightarrow> size_t \<Rightarrow> (ptr \<times> ArenaAllocator \<times> heap) result" where
  "ArenaAllocator_zalloc aa h size0 =
     (let sz = ArenaAllocator_round_size_up size0 in
      if sz > BIG_ALLOC_THRESH then Big_zalloc aa h Sentinel sz
      else
        (case (case arena aa of
                 [] \<Rightarrow> ArenaAllocator_alloc_arena aa h
               | a # _ \<Rightarrow>
                   (let remainder = ARENA_BUFFER_SIZE - used a in
                    if sz > remainder then ArenaAllocator_alloc_arena aa h else (0, aa, h))) of
           (rc, aa', h') \<Rightarrow>
             if rc \<noteq> 0 then Inr (0, aa', h')
             else
               (case arena aa' of
                  [] \<Rightarrow> Inl NullDeref
                | a # rest \<Rightarrow>
                    (let res = buff a + used a in
                     Inr (res, aa'\<lparr>arena := a\<lparr>used := used a + sz\<rparr> # rest\<rparr>,
                          h'\<lparr>mem := memset (mem h') res 0 sz\<rparr>)))))"

definition ArenaAllocator_free ::
  "ArenaAllocator \<Rightarrow> heap \<Rightarrow> ptr \<Rightarrow> size_t \<Rightarrow> (ArenaAllocator \<times> heap) result" where
  "ArenaAllocator_free aa h p size0 =
     (if p = 0 then Inr (aa, h)
      else if size0 = 0 then Inr (aa, h)
      else
        (let sz = ArenaAllocator_round_size_up size0 in
         if sz > BIG_ALLOC_THRESH then Big_free aa h p sz
         else
           (case arena aa of
              [] \<Rightarrow> Inl AssertFail
            | a # rest \<Rightarrow>
                if p + sz = buff a + used a
                then Inr (aa\<lparr>arena := a\<lparr>used := used a - sz\<rparr> # rest\<rparr>, h)
                else Inr (aa, h))))"

definition ArenaAllocator_realloc ::
  "ArenaAllocator \<Rightarrow> heap \<Rightarrow> ptr \<Rightarrow> size_t \<Rightarrow> size_t \<Rightarrow> (ptr \<times> ArenaAllocator \<times> heap) result" where
  "ArenaAllocator_realloc aa h p old_size0 new_size0 =
     (if old_size0 = 0 \<and> new_size0 = 0 then Inr (p, aa, h)
      else if old_size0 = 0 then
        (if p \<noteq> 0 then Inl AssertFail else ArenaAllocator_alloc aa h new_size0)
      else if new_size0 = 0 then
        (case ArenaAllocator_free aa h p old_size0 of
           Inl f \<Rightarrow> Inl f
         | Inr (aa', h') \<Rightarrow> Inr (0, aa', h'))
      else
        (let old_size = ArenaAllocator_round_size_up old_size0;
             new_size = ArenaAllocator_round_size_up new_size0 in
         if old_size = new_size then Inr (p, aa, h)
         else if old_size > BIG_ALLOC_THRESH then
           (if new_size > BIG_ALLOC_THRESH then Big_realloc aa h p old_size new_size
            else
              (case ArenaAllocator_alloc aa h new_size of
                 Inl f \<Rightarrow> Inl f
               | Inr (res, aa', h') \<Rightarrow>
                   if res = 0 then Inr (0, aa', h')
                   else if \<not> old_size > new_size then Inl AssertFail
                   else
                     (case Big_free aa' (h'\<lparr>mem := memcpy (mem h') res p new_size\<rparr>) p old_size of
                        Inl f \<Rightarrow> Inl f
                      | Inr (aa'', h'') \<Rightarrow> Inr (res, aa'', h''))))
         else if new_size > BIG_ALLOC_THRESH then
           (case Big_alloc aa h Sentinel new_size of
              Inl f \<Rightarrow> Inl f
            | Inr (res, aa', h') \<Rightarrow>
                if res = 0 then Inr (0, aa', h')
                else if old_size \<noteq> 0 then
                  (case ArenaAllocator_free aa' (h'\<lparr>mem := memcpy (mem h') res p old_size\<rparr>) p old_size of
                     Inl f \<Rightarrow> Inl f
                   | Inr (aa'', h'') \<Rightarrow> Inr (res, aa'', h''))
                else Inr (res, aa', h'))
         else
           (case arena aa of
              [] \<Rightarrow> Inl AssertFail
            | a # rest \<Rightarrow>
                if p + old_size = buff a + used a
                   \<and> used a - old_size + new_size \<le> ARENA_BUFFER_SIZE
                then Inr (p, aa\<lparr>arena := a\<lparr>used := used a - old_size + new_size\<rparr> # rest\<rparr>, h)
                else
                  (case (if ARENA_BUFFER_SIZE - used a < new_size
                         then ArenaAllocator_alloc_arena aa h else (0, aa, h)) of
                     (rc, aa', h') \<Rightarrow>
                       if rc \<noteq> 0 then Inr (0, aa', h')
                       else
                         (case arena aa' of
                            [] \<Rightarrow> Inl NullDeref
                          | a' # rest' \<Rightarrow>
                              (let res = buff a' + used a' in
                               Inr (res,
                                    aa'\<lparr>arena := a'\<lparr>used := used a' + new_size\<rparr> # rest'\<rparr>,
                                    h'\<lparr>mem := memcpy (mem h') res p
                                           (if old_size < new_size then old_size else new_size)\<rparr>)))))))"

text \<open>
  \<^verbatim>\<open>ArenaAllocator_free_all\<close> releases every block, then walks the big list from the
  sentinel, releasing each header it meets.  A link to a header that is not in the store
  (already released) is a use of a dead pointer.
\<close>

function free_big_list ::
  "node_ptr \<Rightarrow> (ptr \<times> BigAllocation) list \<Rightarrow> heap \<Rightarrow> ((ptr \<times> BigAllocation) list \<times> heap) result" where
  "free_big_list ba store h =
     (case ba of
        NullNode \<Rightarrow> Inr (store, h)
      | Sentinel \<Rightarrow> Inl BadPointer
      | BigNode p \<Rightarrow>
          (case map_of store p of
             None \<Rightarrow> Inl BadPointer
           | Some b \<Rightarrow> free_big_list (nxt b) (AList.delete p store) (free h p)))"
  by pat_completeness auto
termination
  by (relation "measure (\<lambda>(ba, store, h). length store)")
     (auto simp: AList.delete_eq dest!: map_of_SomeD intro!: length_filter_less)

definition ArenaAllocator_free_all :: "ArenaAllocator \<Rightarrow> heap \<Rightarrow> (ArenaAllocator \<times> heap) result" where
  "ArenaAllocator_free_all aa h =
     (let h1 = fold (\<lambda>a h. free h (base a)) (arena aa) h in
      if prv (big_allocations aa) \<noteq> NullNode then Inl AssertFail
      else
        (case free_big_list (nxt (big_allocations aa)) (bigs aa) h1 of
           Inl f \<Rightarrow> Inl f
         | Inr (store, h2) \<Rightarrow>
             Inr (aa\<lparr>arena := [],
                     big_allocations := \<lparr>nxt = NullNode, prv = NullNode\<rparr>,
                     bigs := store\<rparr>, h2)))"

text \<open>The arena count of \<^verbatim>\<open>ArenaAllocator_stats\<close>: one per block of the chain.\<close>

definition arena_count :: "ArenaAllocator \<Rightarrow> nat" where
  "arena_count aa = fold (\<lambda>a n. n + 1) (arena aa) 0"

section \<open>The recording allocator (\<^verbatim>\<open>recording_allocator.h\<close>)\<close>

text \<open>
  The ledger is two heap arrays of \<open>capacity\<close> cells, of which the first \<open>count\<close> are in
  use.  An array is its address (\<open>0\<close> when the pointer is null) and its cells.  A read or
  write through a null array, or past its cells, ends the process.  \<open>count\<close> and
  \<open>capacity\<close> are natural numbers: each counted entry is a cell of a live array, so
  neither can reach \<open>2 ^ 64\<close>.
\<close>

record 'a array =
  addr :: ptr
  cells :: "'a list"

definition rd :: "'a array \<Rightarrow> nat \<Rightarrow> 'a result" where
  "rd a i =
     (if addr a = 0 then Inl NullDeref
      else if i < length (cells a) then Inr (cells a ! i)
      else Inl BadPointer)"

definition wr :: "'a array \<Rightarrow> nat \<Rightarrow> 'a \<Rightarrow> 'a array result" where
  "wr a i v =
     (if addr a = 0 then Inl NullDeref
      else if i < length (cells a) then Inr (a\<lparr>cells := (cells a)[i := v]\<rparr>)
      else Inl BadPointer)"

record RecordingAllocator =
  allocations :: "ptr array"
  allocation_sizes :: "size_t array"
  count :: nat
  capacity :: nat

definition INITIAL_CAPACITY :: nat where "INITIAL_CAPACITY = 32"

text \<open>
  New cells of a grown or fresh array hold no meaningful value (here \<open>0\<close>); the code never
  reads a cell at or past \<open>count\<close>.  No result of the heap is checked: a failed call
  leaves a null array behind.
\<close>

definition grow :: "'a::zero array \<Rightarrow> ptr \<Rightarrow> nat \<Rightarrow> 'a array" where
  "grow a p n = (if p = 0 then \<lparr>addr = 0, cells = []\<rparr>
                 else \<lparr>addr = p, cells = cells a @ replicate (n - length (cells a)) 0\<rparr>)"

definition recording_ensure_capacity :: "RecordingAllocator \<Rightarrow> heap \<Rightarrow> RecordingAllocator \<times> heap" where
  "recording_ensure_capacity r h =
     (if count r < capacity r then (r, h)
      else if capacity r = 0 then
        (case malloc h (of_nat (INITIAL_CAPACITY * 8)) of
           (p1, h1) \<Rightarrow>
             (case malloc h1 (of_nat (INITIAL_CAPACITY * 8)) of
                (p2, h2) \<Rightarrow>
                  (r\<lparr>capacity := INITIAL_CAPACITY,
                     allocations := grow \<lparr>addr = 0, cells = []\<rparr> p1 INITIAL_CAPACITY,
                     allocation_sizes := grow \<lparr>addr = 0, cells = []\<rparr> p2 INITIAL_CAPACITY\<rparr>, h2)))
      else
        (let old_cap = capacity r; new_cap = old_cap * 2 in
         case sane_realloc h (addr (allocations r)) (of_nat (old_cap * 8)) (of_nat (new_cap * 8)) of
           (p1, h1) \<Rightarrow>
             (case sane_realloc h1 (addr (allocation_sizes r)) (of_nat (old_cap * 8))
                     (of_nat (new_cap * 8)) of
                (p2, h2) \<Rightarrow>
                  (r\<lparr>allocations := grow (allocations r) p1 new_cap,
                     allocation_sizes := grow (allocation_sizes r) p2 new_cap,
                     capacity := new_cap\<rparr>, h2))))"

text \<open>
  \<^verbatim>\<open>index = r->count++; r->allocations[index] = result; r->allocation_sizes[index] = size\<close>:
  the lines that \<^verbatim>\<open>recording_alloc\<close>, \<^verbatim>\<open>recording_zalloc\<close> and \<^verbatim>\<open>recording_realloc\<close> share.
\<close>

definition record_entry :: "RecordingAllocator \<Rightarrow> ptr \<Rightarrow> size_t \<Rightarrow> RecordingAllocator result" where
  "record_entry r p sz =
     (let index = count r; r1 = r\<lparr>count := count r + 1\<rparr> in
      case wr (allocations r1) index p of
        Inl f \<Rightarrow> Inl f
      | Inr a \<Rightarrow>
          (case wr (allocation_sizes r1) index sz of
             Inl f \<Rightarrow> Inl f
           | Inr s \<Rightarrow> Inr (r1\<lparr>allocations := a, allocation_sizes := s\<rparr>)))"

definition recording_alloc ::
  "RecordingAllocator \<Rightarrow> heap \<Rightarrow> size_t \<Rightarrow> (ptr \<times> RecordingAllocator \<times> heap) result" where
  "recording_alloc r h sz =
     (case malloc h sz of
        (res, h1) \<Rightarrow>
          if res = 0 then Inr (res, r, h1)
          else
            (case recording_ensure_capacity r h1 of
               (r1, h2) \<Rightarrow>
                 (case record_entry r1 res sz of
                    Inl f \<Rightarrow> Inl f
                  | Inr r2 \<Rightarrow> Inr (res, r2, h2))))"

definition recording_zalloc ::
  "RecordingAllocator \<Rightarrow> heap \<Rightarrow> size_t \<Rightarrow> (ptr \<times> RecordingAllocator \<times> heap) result" where
  "recording_zalloc r h sz =
     (case calloc h 1 sz of
        (res, h1) \<Rightarrow>
          if res = 0 then Inr (res, r, h1)
          else
            (case recording_ensure_capacity r h1 of
               (r1, h2) \<Rightarrow>
                 (case record_entry r1 res sz of
                    Inl f \<Rightarrow> Inl f
                  | Inr r2 \<Rightarrow> Inr (res, r2, h2))))"

text \<open>The reverse scan \<^verbatim>\<open>for(size_t i = count; i--;) if(data == r->allocations[i])\<close>.\<close>

fun find_slot :: "ptr array \<Rightarrow> ptr \<Rightarrow> nat \<Rightarrow> nat option result" where
  "find_slot a d 0 = Inr None"
| "find_slot a d (Suc i) =
     (case rd a i of
        Inl f \<Rightarrow> Inl f
      | Inr v \<Rightarrow> if d = v then Inr (Some i) else find_slot a d i)"

text \<open>\<^verbatim>\<open>while(r->count && r->allocation_sizes[r->count-1] == 0) r->count--;\<close>\<close>

fun trim :: "size_t array \<Rightarrow> nat \<Rightarrow> nat result" where
  "trim s 0 = Inr 0"
| "trim s (Suc n) =
     (case rd s n of
        Inl f \<Rightarrow> Inl f
      | Inr v \<Rightarrow> if v = 0 then trim s n else Inr (Suc n))"

text \<open>
  Slot \<open>i\<close> is vacated and the count trimmed: \<^verbatim>\<open>allocations[i] = NULL; allocation_sizes[i] = 0\<close>
  and the loop above, as \<^verbatim>\<open>recording_free\<close> and \<^verbatim>\<open>recording_realloc\<close> both do.
\<close>

definition vacate :: "RecordingAllocator \<Rightarrow> nat \<Rightarrow> RecordingAllocator result" where
  "vacate r i =
     (case wr (allocations r) i 0 of
        Inl f \<Rightarrow> Inl f
      | Inr a \<Rightarrow>
          (case wr (allocation_sizes r) i 0 of
             Inl f \<Rightarrow> Inl f
           | Inr s \<Rightarrow>
               (case trim s (count r) of
                  Inl f \<Rightarrow> Inl f
                | Inr c \<Rightarrow> Inr (r\<lparr>allocations := a, allocation_sizes := s, count := c\<rparr>))))"

definition recording_free ::
  "RecordingAllocator \<Rightarrow> heap \<Rightarrow> ptr \<Rightarrow> size_t \<Rightarrow> (RecordingAllocator \<times> heap) result" where
  "recording_free r h d sz =
     (if d = 0 then Inr (r, h)
      else
        (case find_slot (allocations r) d (count r) of
           Inl f \<Rightarrow> Inl f
         | Inr None \<Rightarrow> Inl AssertFail
         | Inr (Some i) \<Rightarrow>
             (case rd (allocation_sizes r) i of
                Inl f \<Rightarrow> Inl f
              | Inr s \<Rightarrow>
                  if sz \<noteq> s then Inl AssertFail
                  else
                    (case vacate r i of
                       Inl f \<Rightarrow> Inl f
                     | Inr r' \<Rightarrow> Inr (r', free h d)))))"

fun free_slots :: "ptr array \<Rightarrow> nat list \<Rightarrow> heap \<Rightarrow> heap result" where
  "free_slots a [] h = Inr h"
| "free_slots a (i # is) h =
     (case rd a i of
        Inl f \<Rightarrow> Inl f
      | Inr p \<Rightarrow> free_slots a is (free h p))"

definition recording_free_all :: "RecordingAllocator \<Rightarrow> heap \<Rightarrow> (RecordingAllocator \<times> heap) result" where
  "recording_free_all r h =
     (case free_slots (allocations r) [0..<count r] h of
        Inl f \<Rightarrow> Inl f
      | Inr h' \<Rightarrow> Inr (r\<lparr>count := 0\<rparr>, h'))"

definition recording_realloc ::
  "RecordingAllocator \<Rightarrow> heap \<Rightarrow> ptr \<Rightarrow> size_t \<Rightarrow> size_t \<Rightarrow> (ptr \<times> RecordingAllocator \<times> heap) result" where
  "recording_realloc r h d orig_size new_size =
     (case (if d = 0 then Inr r
            else
              (case find_slot (allocations r) d (count r) of
                 Inl f \<Rightarrow> Inl f
               | Inr None \<Rightarrow> Inl AssertFail
               | Inr (Some i) \<Rightarrow>
                   (case rd (allocation_sizes r) i of
                      Inl f \<Rightarrow> Inl f
                    | Inr s \<Rightarrow> if orig_size \<noteq> s then Inl AssertFail else vacate r i))) of
        Inl f \<Rightarrow> Inl f
      | Inr r0 \<Rightarrow>
          (case sane_realloc h d orig_size new_size of
             (res, h1) \<Rightarrow>
               (case recording_ensure_capacity r0 h1 of
                  (r1, h2) \<Rightarrow>
                    (case record_entry r1 res new_size of
                       Inl f \<Rightarrow> Inl f
                     | Inr r2 \<Rightarrow> Inr (res, r2, h2)))))"

definition recording_cleanup :: "RecordingAllocator \<Rightarrow> heap \<Rightarrow> RecordingAllocator \<times> heap" where
  "recording_cleanup r h =
     (\<lparr>allocations = \<lparr>addr = 0, cells = []\<rparr>,
       allocation_sizes = \<lparr>addr = 0, cells = []\<rparr>,
       count = 0, capacity = 0\<rparr>,
      free (free h (addr (allocation_sizes r))) (addr (allocations r)))"

text \<open>\<^verbatim>\<open>new_recorded_mallocator\<close>: a zeroed \<^verbatim>\<open>RecordingAllocator\<close>.\<close>

definition new_recorder :: RecordingAllocator where
  "new_recorder =
     \<lparr>allocations = \<lparr>addr = 0, cells = []\<rparr>,
      allocation_sizes = \<lparr>addr = 0, cells = []\<rparr>,
      count = 0, capacity = 0\<rparr>"

section \<open>The testing allocator (\<^verbatim>\<open>testing_allocator.h\<close>)\<close>

text \<open>
  \<^verbatim>\<open>fail_at\<close> and \<^verbatim>\<open>nallocs\<close> are \<^verbatim>\<open>int64_t\<close>: integers between \<open>- 2 ^ 63\<close> and
  \<open>2 ^ 63 - 1\<close>, whose overflow (\<^verbatim>\<open>++ta->nallocs\<close> at the maximum, \<^verbatim>\<open>-ta->fail_at\<close> at the
  minimum) is undefined in C and ends the run here.  The lock is taken on entry and
  released on exit of every operation; in this sequential model it has no effect.
\<close>

definition INT64_MAX :: int where "INT64_MAX = 2 ^ 63 - 1"
definition INT64_MIN :: int where "INT64_MIN = - (2 ^ 63)"

record TestingAllocator =
  fail_at :: int
  nallocs :: int
  recorder :: RecordingAllocator

definition testing_alloc ::
  "TestingAllocator \<Rightarrow> heap \<Rightarrow> size_t \<Rightarrow> (ptr \<times> TestingAllocator \<times> heap) result" where
  "testing_alloc ta h sz =
     (if nallocs ta = INT64_MAX then Inl SignedOverflow
      else
        (let ta1 = ta\<lparr>nallocs := nallocs ta + 1\<rparr> in
         if fail_at ta1 < 0 \<and> fail_at ta1 = INT64_MIN then Inl SignedOverflow
         else if (if fail_at ta1 < 0 then nallocs ta1 \<ge> - fail_at ta1
                  else nallocs ta1 = fail_at ta1)
         then Inr (0, ta1, h)
         else
           (case recording_alloc (recorder ta1) h sz of
              Inl f \<Rightarrow> Inl f
            | Inr (res, r, h') \<Rightarrow> Inr (res, ta1\<lparr>recorder := r\<rparr>, h'))))"

definition testing_zalloc ::
  "TestingAllocator \<Rightarrow> heap \<Rightarrow> size_t \<Rightarrow> (ptr \<times> TestingAllocator \<times> heap) result" where
  "testing_zalloc ta h sz =
     (if nallocs ta = INT64_MAX then Inl SignedOverflow
      else
        (let ta1 = ta\<lparr>nallocs := nallocs ta + 1\<rparr> in
         if fail_at ta1 < 0 \<and> fail_at ta1 = INT64_MIN then Inl SignedOverflow
         else if (if fail_at ta1 < 0 then nallocs ta1 \<ge> - fail_at ta1
                  else nallocs ta1 = fail_at ta1)
         then Inr (0, ta1, h)
         else
           (case recording_zalloc (recorder ta1) h sz of
              Inl f \<Rightarrow> Inl f
            | Inr (res, r, h') \<Rightarrow> Inr (res, ta1\<lparr>recorder := r\<rparr>, h'))))"

definition testing_free ::
  "TestingAllocator \<Rightarrow> heap \<Rightarrow> ptr \<Rightarrow> size_t \<Rightarrow> (TestingAllocator \<times> heap) result" where
  "testing_free ta h d sz =
     (case recording_free (recorder ta) h d sz of
        Inl f \<Rightarrow> Inl f
      | Inr (r, h') \<Rightarrow> Inr (ta\<lparr>recorder := r\<rparr>, h'))"

definition testing_free_all :: "TestingAllocator \<Rightarrow> heap \<Rightarrow> (TestingAllocator \<times> heap) result" where
  "testing_free_all ta h =
     (case recording_free_all (recorder ta) h of
        Inl f \<Rightarrow> Inl f
      | Inr (r, h') \<Rightarrow> Inr (ta\<lparr>recorder := r\<rparr>, h'))"

definition testing_realloc ::
  "TestingAllocator \<Rightarrow> heap \<Rightarrow> ptr \<Rightarrow> size_t \<Rightarrow> size_t \<Rightarrow> (ptr \<times> TestingAllocator \<times> heap) result" where
  "testing_realloc ta h d orig_size new_size =
     (if new_size > orig_size \<and> nallocs ta = INT64_MAX then Inl SignedOverflow
      else
        (let ta1 = (if new_size > orig_size then ta\<lparr>nallocs := nallocs ta + 1\<rparr> else ta) in
         if new_size > orig_size \<and> fail_at ta1 < 0 \<and> fail_at ta1 = INT64_MIN
         then Inl SignedOverflow
         else if new_size > orig_size
                 \<and> (if fail_at ta1 < 0 then nallocs ta1 \<ge> - fail_at ta1
                     else nallocs ta1 = fail_at ta1)
         then Inr (0, ta1, h)
         else
           (case recording_realloc (recorder ta1) h d orig_size new_size of
              Inl f \<Rightarrow> Inl f
            | Inr (res, r, h') \<Rightarrow> Inr (res, ta1\<lparr>recorder := r\<rparr>, h'))))"

section \<open>The dispatch handle (\<^verbatim>\<open>allocator.h\<close>, \<^verbatim>\<open>allocator.c\<close>)\<close>

text \<open>
  \<^verbatim>\<open>struct Allocator {type; _data}\<close>.  \<^verbatim>\<open>_data\<close> points to the context of the strategy;
  the model holds the context itself and returns the handle with the updated context.
  A handle whose \<^verbatim>\<open>_data\<close> is not a context of its type makes the strategy read a
  foreign object.  Both \<^verbatim>\<open>USE_RECORDED_ALLOCATOR\<close> and \<^verbatim>\<open>USE_TESTING_ALLOCATOR\<close> are
  defined; \<^verbatim>\<open>ALLOC_BAD()\<close> is \<^verbatim>\<open>abort()\<close>.
\<close>

datatype AllocatorType =
    ALLOCATOR_UNSET
  | ALLOCATOR_MALLOC
  | ALLOCATOR_ARENA
  | ALLOCATOR_NULL
  | ALLOCATOR_RECORDED
  | ALLOCATOR_TESTING

datatype strategy_data =
    NoData
  | ArenaData ArenaAllocator
  | RecordedData RecordingAllocator
  | TestingData TestingAllocator

record Allocator =
  type :: AllocatorType
  data :: strategy_data

definition MALLOCATOR :: Allocator where
  "MALLOCATOR = \<lparr>type = ALLOCATOR_MALLOC, data = NoData\<rparr>"

definition NULLACATOR :: Allocator where
  "NULLACATOR = \<lparr>type = ALLOCATOR_NULL, data = NoData\<rparr>"

definition allocator_from_arena :: "ArenaAllocator \<Rightarrow> Allocator" where
  "allocator_from_arena aa = \<lparr>type = ALLOCATOR_ARENA, data = ArenaData aa\<rparr>"

text \<open>The result of a strategy, put back behind the handle.\<close>

definition returning ::
  "Allocator \<Rightarrow> ('c \<Rightarrow> strategy_data) \<Rightarrow> ('r \<times> 'c \<times> heap) result \<Rightarrow> ('r \<times> Allocator \<times> heap) result" where
  "returning a wrap r =
     (case r of
        Inl f \<Rightarrow> Inl f
      | Inr (x, c, h) \<Rightarrow> Inr (x, a\<lparr>data := wrap c\<rparr>, h))"

definition returning_void ::
  "Allocator \<Rightarrow> ('c \<Rightarrow> strategy_data) \<Rightarrow> ('c \<times> heap) result \<Rightarrow> (Allocator \<times> heap) result" where
  "returning_void a wrap r =
     (case r of
        Inl f \<Rightarrow> Inl f
      | Inr (c, h) \<Rightarrow> Inr (a\<lparr>data := wrap c\<rparr>, h))"

definition Allocator_supports_free_all :: "Allocator \<Rightarrow> int result" where
  "Allocator_supports_free_all a =
     (case type a of
        ALLOCATOR_UNSET \<Rightarrow> Inl Abort
      | ALLOCATOR_MALLOC \<Rightarrow> Inr 0
      | ALLOCATOR_NULL \<Rightarrow> Inr 0
      | ALLOCATOR_ARENA \<Rightarrow> Inr 1
      | ALLOCATOR_RECORDED \<Rightarrow> Inr 1
      | ALLOCATOR_TESTING \<Rightarrow> Inr 1)"

definition Allocator_free_all :: "Allocator \<Rightarrow> heap \<Rightarrow> (Allocator \<times> heap) result" where
  "Allocator_free_all a h =
     (case type a of
        ALLOCATOR_UNSET \<Rightarrow> Inl Abort
      | ALLOCATOR_MALLOC \<Rightarrow> Inl Abort
      | ALLOCATOR_ARENA \<Rightarrow>
          (case data a of
             ArenaData aa \<Rightarrow> returning_void a ArenaData (ArenaAllocator_free_all aa h)
           | _ \<Rightarrow> Inl BadPointer)
      | ALLOCATOR_NULL \<Rightarrow> Inl Abort
      | ALLOCATOR_RECORDED \<Rightarrow>
          (case data a of
             RecordedData r \<Rightarrow> returning_void a RecordedData (recording_free_all r h)
           | _ \<Rightarrow> Inl BadPointer)
      | ALLOCATOR_TESTING \<Rightarrow>
          (case data a of
             TestingData ta \<Rightarrow> returning_void a TestingData (testing_free_all ta h)
           | _ \<Rightarrow> Inl BadPointer))"

definition Allocator_alloc :: "Allocator \<Rightarrow> heap \<Rightarrow> size_t \<Rightarrow> (ptr \<times> Allocator \<times> heap) result" where
  "Allocator_alloc a h sz =
     (case type a of
        ALLOCATOR_UNSET \<Rightarrow> Inl Abort
      | ALLOCATOR_MALLOC \<Rightarrow> (case malloc h sz of (p, h') \<Rightarrow> Inr (p, a, h'))
      | ALLOCATOR_ARENA \<Rightarrow>
          (case data a of
             ArenaData aa \<Rightarrow> returning a ArenaData (ArenaAllocator_alloc aa h sz)
           | _ \<Rightarrow> Inl BadPointer)
      | ALLOCATOR_NULL \<Rightarrow> Inr (0, a, h)
      | ALLOCATOR_RECORDED \<Rightarrow>
          (case data a of
             RecordedData r \<Rightarrow> returning a RecordedData (recording_alloc r h sz)
           | _ \<Rightarrow> Inl BadPointer)
      | ALLOCATOR_TESTING \<Rightarrow>
          (case data a of
             TestingData ta \<Rightarrow> returning a TestingData (testing_alloc ta h sz)
           | _ \<Rightarrow> Inl BadPointer))"

definition Allocator_zalloc :: "Allocator \<Rightarrow> heap \<Rightarrow> size_t \<Rightarrow> (ptr \<times> Allocator \<times> heap) result" where
  "Allocator_zalloc a h sz =
     (case type a of
        ALLOCATOR_UNSET \<Rightarrow> Inl Abort
      | ALLOCATOR_MALLOC \<Rightarrow> (case calloc h 1 sz of (p, h') \<Rightarrow> Inr (p, a, h'))
      | ALLOCATOR_ARENA \<Rightarrow>
          (case data a of
             ArenaData aa \<Rightarrow> returning a ArenaData (ArenaAllocator_zalloc aa h sz)
           | _ \<Rightarrow> Inl BadPointer)
      | ALLOCATOR_NULL \<Rightarrow> Inr (0, a, h)
      | ALLOCATOR_RECORDED \<Rightarrow>
          (case data a of
             RecordedData r \<Rightarrow> returning a RecordedData (recording_zalloc r h sz)
           | _ \<Rightarrow> Inl BadPointer)
      | ALLOCATOR_TESTING \<Rightarrow>
          (case data a of
             TestingData ta \<Rightarrow> returning a TestingData (testing_zalloc ta h sz)
           | _ \<Rightarrow> Inl BadPointer))"

definition Allocator_realloc ::
  "Allocator \<Rightarrow> heap \<Rightarrow> ptr \<Rightarrow> size_t \<Rightarrow> size_t \<Rightarrow> (ptr \<times> Allocator \<times> heap) result" where
  "Allocator_realloc a h d orig_size sz =
     (case type a of
        ALLOCATOR_UNSET \<Rightarrow> Inl Abort
      | ALLOCATOR_MALLOC \<Rightarrow> (case sane_realloc h d orig_size sz of (p, h') \<Rightarrow> Inr (p, a, h'))
      | ALLOCATOR_ARENA \<Rightarrow>
          (case data a of
             ArenaData aa \<Rightarrow> returning a ArenaData (ArenaAllocator_realloc aa h d orig_size sz)
           | _ \<Rightarrow> Inl BadPointer)
      | ALLOCATOR_NULL \<Rightarrow> Inr (0, a, h)
      | ALLOCATOR_RECORDED \<Rightarrow>
          (case data a of
             RecordedData r \<Rightarrow> returning a RecordedData (recording_realloc r h d orig_size sz)
           | _ \<Rightarrow> Inl BadPointer)
      | ALLOCATOR_TESTING \<Rightarrow>
          (case data a of
             TestingData ta \<Rightarrow> returning a TestingData (testing_realloc ta h d orig_size sz)
           | _ \<Rightarrow> Inl BadPointer))"

definition Allocator_free :: "Allocator \<Rightarrow> heap \<Rightarrow> ptr \<Rightarrow> size_t \<Rightarrow> (Allocator \<times> heap) result" where
  "Allocator_free a h d sz =
     (case type a of
        ALLOCATOR_UNSET \<Rightarrow> Inl Abort
      | ALLOCATOR_MALLOC \<Rightarrow> Inr (a, free h d)
      | ALLOCATOR_ARENA \<Rightarrow>
          (case data a of
             ArenaData aa \<Rightarrow> returning_void a ArenaData (ArenaAllocator_free aa h d sz)
           | _ \<Rightarrow> Inl BadPointer)
      | ALLOCATOR_NULL \<Rightarrow> Inr (a, h)
      | ALLOCATOR_RECORDED \<Rightarrow>
          (case data a of
             RecordedData r \<Rightarrow> returning_void a RecordedData (recording_free r h d sz)
           | _ \<Rightarrow> Inl BadPointer)
      | ALLOCATOR_TESTING \<Rightarrow>
          (case data a of
             TestingData ta \<Rightarrow> returning_void a TestingData (testing_free ta h d sz)
           | _ \<Rightarrow> Inl BadPointer))"

text \<open>
  \<^verbatim>\<open>Allocator_good_size\<close>.  On Apple systems the heap-backed strategies ask
  \<^verbatim>\<open>malloc_good_size\<close>, a function of the system library: the argument \<open>mgs\<close> is that
  function where the platform has it (\<open>Some f\<close>) and \<open>None\<close> elsewhere.
\<close>

definition Allocator_good_size :: "(size_t \<Rightarrow> size_t) option \<Rightarrow> Allocator \<Rightarrow> size_t \<Rightarrow> size_t result" where
  "Allocator_good_size mgs a sz =
     (case type a of
        ALLOCATOR_UNSET \<Rightarrow> Inl Abort
      | ALLOCATOR_MALLOC \<Rightarrow> (case mgs of Some f \<Rightarrow> Inr (f sz) | None \<Rightarrow> Inr sz)
      | ALLOCATOR_ARENA \<Rightarrow> Inr (ArenaAllocator_round_size_up sz)
      | ALLOCATOR_NULL \<Rightarrow> Inr sz
      | ALLOCATOR_RECORDED \<Rightarrow> (case mgs of Some f \<Rightarrow> Inr (f sz) | None \<Rightarrow> Inr sz)
      | ALLOCATOR_TESTING \<Rightarrow> (case mgs of Some f \<Rightarrow> Inr (f sz) | None \<Rightarrow> Inr sz))"

section \<open>Initial states\<close>

text \<open>\<^verbatim>\<open>ArenaAllocator aa = {0}\<close>: no block, an empty big list.\<close>

definition empty_arena :: ArenaAllocator where
  "empty_arena = \<lparr>arena = [], big_allocations = \<lparr>nxt = NullNode, prv = NullNode\<rparr>, bigs = []\<rparr>"

text \<open>A heap that will answer the next allocating calls with the given addresses.\<close>

definition heap_of :: "ptr list \<Rightarrow> heap" where
  "heap_of ps = \<lparr>answers = ps, mem = (\<lambda>_. 0), released = []\<rparr>"

text \<open>
  What the heap guarantees of the blocks it hands out: a block of \<^verbatim>\<open>ARENA_SIZE\<close> bytes
  at a non-null address lies inside the address space, and two live blocks do not overlap.
\<close>

definition block_at :: "ptr \<Rightarrow> bool" where
  "block_at p \<longleftrightarrow> p \<noteq> 0 \<and> unat p + unat ARENA_SIZE \<le> 2 ^ 64"

definition disjoint_blocks :: "ptr \<Rightarrow> ptr \<Rightarrow> bool" where
  "disjoint_blocks p q \<longleftrightarrow>
     unat p + unat ARENA_SIZE \<le> unat q \<or> unat q + unat ARENA_SIZE \<le> unat p"

section \<open>Ledgers and runs\<close>

text \<open>
  A ledger in use: both arrays exist and hold at least \<open>count\<close> cells (a ledger with
  \<open>count = 0\<close> needs no array).  Slot \<open>i\<close> is the slot of \<open>d\<close> when it is the last slot
  below \<open>count\<close> that holds \<open>d\<close>: the one the reverse scan finds.
\<close>

definition ledger_ok :: "RecordingAllocator \<Rightarrow> bool" where
  "ledger_ok r \<longleftrightarrow>
     count r = 0
     \<or> (addr (allocations r) \<noteq> 0 \<and> addr (allocation_sizes r) \<noteq> 0
        \<and> count r \<le> length (cells (allocations r))
        \<and> count r \<le> length (cells (allocation_sizes r)))"

definition slot_of :: "RecordingAllocator \<Rightarrow> ptr \<Rightarrow> nat \<Rightarrow> bool" where
  "slot_of r d i \<longleftrightarrow>
     i < count r \<and> cells (allocations r) ! i = d
     \<and> (\<forall>j \<in> {i <..< count r}. cells (allocations r) ! j \<noteq> d)"







text \<open>
  \<^verbatim>\<open>ArenaAllocator_alloc\<close> with the size of a block as a parameter \<open>S\<close> in place of the
  constant \<^verbatim>\<open>ARENA_SIZE\<close> (and with it the threshold \<open>S / 2\<close> and the buffer size
  \<open>S - 16\<close>), to ask what the routine would do were the constant another.
\<close>

definition ArenaAllocator_alloc_with ::
  "size_t \<Rightarrow> ArenaAllocator \<Rightarrow> heap \<Rightarrow> size_t \<Rightarrow> (ptr \<times> ArenaAllocator \<times> heap) result" where
  "ArenaAllocator_alloc_with S aa h size0 =
     (let sz = ArenaAllocator_round_size_up size0 in
      if sz > S div 2 then Big_alloc aa h Sentinel sz
      else
        (case (case arena aa of
                 [] \<Rightarrow> ArenaAllocator_alloc_arena aa h
               | a # _ \<Rightarrow>
                   (let remainder = (S - 8 - 8) - used a in
                    if sz > remainder then ArenaAllocator_alloc_arena aa h else (0, aa, h))) of
           (rc, aa', h') \<Rightarrow>
             if rc \<noteq> 0 then Inr (0, aa', h')
             else
               (case arena aa' of
                  [] \<Rightarrow> Inl NullDeref
                | a # rest \<Rightarrow>
                    Inr (buff a + used a, aa'\<lparr>arena := a\<lparr>used := used a + sz\<rparr> # rest\<rparr>, h'))))"



text \<open>
  A pointer a caller may hand to \<^verbatim>\<open>realloc\<close> with old size \<open>sz\<close>: null, or held by a
  slot that records \<open>sz\<close>.
\<close>

definition tracked :: "RecordingAllocator \<Rightarrow> ptr \<Rightarrow> size_t \<Rightarrow> bool" where
  "tracked r d sz \<longleftrightarrow>
     d = 0 \<or> (\<exists>i < count r. slot_of r d i \<and> cells (allocation_sizes r) ! i = sz)"



section \<open>Properties of the allocators\<close>

subsection \<open>Rounding\<close>

lemma unat_and_7: "unat (s AND (7::size_t)) = unat s mod 8"
proof -
  have "s AND mask 3 = s mod 2 ^ 3" by (simp add: take_bit_eq_mod flip: take_bit_eq_mask)
  moreover have "mask 3 = (7::size_t)" by (simp add: mask_eq_exp_minus_1)
  ultimately have "s AND 7 = s mod 8" by simp
  then show ?thesis by (simp add: unat_mod)
qed

lemma nat_round8: "((n + 7) div 8) * 8 = (if n mod 8 = 0 then n else n + 8 - n mod 8)" for n :: nat
proof -
  define q r where "q = n div 8" and "r = n mod 8"
  have n: "n = r + q * 8" and r: "r < 8" by (simp_all add: q_def r_def)
  have r7: "(r + 7) div 8 = (if r = 0 then 0 else 1)"
    using r by (auto simp: div_eq_0_iff Suc_le_eq intro!: Euclidean_Rings.div_nat_eqI)
  have "(n + 7) div 8 = (r + 7 + q * 8) div 8" by (simp add: n)
  also have "\<dots> = q + (r + 7) div 8" by (rule div_mult_self1) simp
  also have "\<dots> = (if r = 0 then q else q + 1)" using r7 by simp
  finally have "(n + 7) div 8 = (if r = 0 then q else q + 1)" .
  then show ?thesis using r unfolding r_def [symmetric] by (simp add: n)
qed

lemma nat_round8_bounds:
  "n \<le> (n + 7) div 8 * 8" "(n + 7) div 8 * 8 < n + 8" "8 dvd (n + 7) div 8 * 8" for n :: nat
proof -
  define r where "r = n mod 8"
  have "r < 8" by (simp add: r_def)
  then have "n \<le> (if r = 0 then n else n + 8 - r)" "(if r = 0 then n else n + 8 - r) < n + 8"
    by auto
  then show "n \<le> (n + 7) div 8 * 8" "(n + 7) div 8 * 8 < n + 8"
    unfolding nat_round8 r_def .
  show "8 dvd (n + 7) div 8 * 8" by simp
qed

lemma unat_round_size_up:
  "unat (ArenaAllocator_round_size_up s) = (((unat s + 7) div 8) * 8) mod 2 ^ 64"
proof (cases "s AND 7 = 0")
  case True
  then have "unat s mod 8 = 0" using unat_and_7 [of s] by simp
  moreover have "unat s < 2 ^ 64" using unsigned_less [of s] by simp
  ultimately show ?thesis using True
    by (simp add: ArenaAllocator_round_size_up_def nat_round8)
next
  case False
  then have r: "unat s mod 8 \<noteq> 0" using unat_and_7 [of s] unat_eq_0 [of "s AND 7"] by simp
  have le: "s AND 7 \<le> 8" by (simp add: word_le_nat_alt unat_and_7)
  have "unat (8 - (s AND 7)) = 8 - unat s mod 8"
    using unat_sub [OF le] by (simp add: unat_and_7)
  then have "unat (s + (8 - (s AND 7))) = (unat s + (8 - unat s mod 8)) mod 2 ^ 64"
    by (simp add: unat_word_ariths)
  then show ?thesis using False r
    by (simp add: ArenaAllocator_round_size_up_def nat_round8)
qed

lemma round_size_up_aligned: "ArenaAllocator_round_size_up s AND 7 = 0"
proof -
  have "(8::nat) dvd 2 ^ 64" by simp
  then have "(unat s + 7) div 8 * 8 mod 2 ^ 64 mod 8 = 0"
    by (simp only: mod_mod_cancel) simp
  then have "unat (ArenaAllocator_round_size_up s) mod 8 = 0"
    by (simp only: unat_round_size_up)
  then show ?thesis
    using unat_and_7 [of "ArenaAllocator_round_size_up s"]
      unat_eq_0 [of "ArenaAllocator_round_size_up s AND 7"] by simp
qed

lemma round_size_up_idem:
  "ArenaAllocator_round_size_up (ArenaAllocator_round_size_up s) = ArenaAllocator_round_size_up s"
  using round_size_up_aligned [of s]
  by (simp add: ArenaAllocator_round_size_up_def [of "ArenaAllocator_round_size_up s"])

lemma unat_round_size_up_small:
  "unat s \<le> 2 ^ 64 - 8 \<Longrightarrow> unat (ArenaAllocator_round_size_up s) = (unat s + 7) div 8 * 8"
proof -
  assume a: "unat s \<le> 2 ^ 64 - 8"
  have "(unat s + 7) div 8 * 8 < 2 ^ 64" using nat_round8_bounds(2) [of "unat s"] a by simp
  then show ?thesis by (simp add: unat_round_size_up)
qed

lemma round_size_up_ge: "unat s \<le> 2 ^ 64 - 8 \<Longrightarrow> s \<le> ArenaAllocator_round_size_up s"
  using nat_round8_bounds(1) [of "unat s"]
  by (simp add: word_le_nat_alt unat_round_size_up_small)

lemma round_size_up_wraps: "2 ^ 64 - 8 < unat s \<Longrightarrow> ArenaAllocator_round_size_up s = 0"
proof -
  assume a: "2 ^ 64 - 8 < unat s"
  have lt: "unat s < 2 ^ 64" using unsigned_less [of s] by simp
  obtain q where q: "(unat s + 7) div 8 * 8 = 8 * q"
    using nat_round8_bounds(3) [of "unat s"] by (auto simp: dvd_def)
  have "8 * q = (2 ^ 64 :: nat)"
    using nat_round8_bounds(1,2) [of "unat s"] a lt unfolding q by simp
  then have "unat (ArenaAllocator_round_size_up s) = 0"
    by (simp add: unat_round_size_up q)
  then show ?thesis by (simp add: unat_eq_0)
qed

lemma round_size_up_ge_iff: "s \<le> ArenaAllocator_round_size_up s \<longleftrightarrow> unat s \<le> 2 ^ 64 - 8"
proof
  assume le: "s \<le> ArenaAllocator_round_size_up s"
  show "unat s \<le> 2 ^ 64 - 8"
  proof (rule ccontr)
    assume "\<not> unat s \<le> 2 ^ 64 - 8"
    then have b: "2 ^ 64 - 8 < unat s" by simp
    then have "s = 0" using le round_size_up_wraps [OF b] by simp
    then show False using b by simp
  qed
qed (rule round_size_up_ge)

subsection \<open>The dispatch handle\<close>

text \<open>
  Claim C5, as stated, fails for the arena strategy at the top of the size range: the
  rounding of \<open>2 ^ 64 - 1\<close> wraps to \<open>0\<close>, which is below the request.
\<close>

theorem good_size_counterexample:
  "Allocator_good_size None (allocator_from_arena empty_arena) 18446744073709551615 = Inr 0
   \<and> \<not> (18446744073709551615 :: size_t) \<le> 0"
  by (simp add: Allocator_good_size_def allocator_from_arena_def ArenaAllocator_round_size_up_def)

text \<open>
  Claim C5, amended.  For every strategy (a handle that is not \<^verbatim>\<open>Unset\<close>) and every size
  \<open>s\<close>, \<^verbatim>\<open>good_size\<close> returns a size \<open>g\<close> and is idempotent at it; \<open>g \<ge> s\<close> holds for the
  heap, null, recording and testing strategies, and for the arena strategy exactly when
  \<open>s \<le> 2 ^ 64 - 8\<close> (above that the 8-byte rounding wraps to \<open>0\<close>).  Where the platform
  supplies \<^verbatim>\<open>malloc_good_size\<close>, that function is assumed to have the two properties
  itself at \<open>s\<close>.
\<close>

theorem good_size_amended:
  assumes "type a \<noteq> ALLOCATOR_UNSET"
    and "case mgs of None \<Rightarrow> True | Some f \<Rightarrow> s \<le> f s \<and> f (f s) = f s"
  shows "\<exists>g. Allocator_good_size mgs a s = Inr g
           \<and> Allocator_good_size mgs a g = Inr g
           \<and> (s \<le> g \<longleftrightarrow> type a \<noteq> ALLOCATOR_ARENA \<or> unat s \<le> 2 ^ 64 - 8)"
  using assms
  by (cases "type a"; cases mgs)
     (simp_all add: Allocator_good_size_def round_size_up_idem round_size_up_ge_iff)

theorem good_size_amended_witness:
  "type (allocator_from_arena empty_arena) \<noteq> ALLOCATOR_UNSET
   \<and> (\<exists>g. Allocator_good_size None (allocator_from_arena empty_arena) 13 = Inr g
           \<and> Allocator_good_size None (allocator_from_arena empty_arena) g = Inr g
           \<and> 13 \<le> g)"
  using good_size_amended [where a = "allocator_from_arena empty_arena" and mgs = None and s = 13]
  by (simp add: allocator_from_arena_def)

text \<open>
  Claim C9.  Each of the seven dispatch operations aborts on an \<^verbatim>\<open>Unset\<close> handle;
  \<^verbatim>\<open>free_all\<close> aborts on the heap and null strategies; \<^verbatim>\<open>supports_free_all\<close> answers 0
  (false) for heap and null and 1 (true) for arena, recording and testing.
\<close>

theorem dispatch_usage_errors:
  "Allocator_alloc \<lparr>type = ALLOCATOR_UNSET, data = d\<rparr> h sz = Inl Abort
   \<and> Allocator_zalloc \<lparr>type = ALLOCATOR_UNSET, data = d\<rparr> h sz = Inl Abort
   \<and> Allocator_realloc \<lparr>type = ALLOCATOR_UNSET, data = d\<rparr> h p old sz = Inl Abort
   \<and> Allocator_free \<lparr>type = ALLOCATOR_UNSET, data = d\<rparr> h p sz = Inl Abort
   \<and> Allocator_free_all \<lparr>type = ALLOCATOR_UNSET, data = d\<rparr> h = Inl Abort
   \<and> Allocator_good_size mgs \<lparr>type = ALLOCATOR_UNSET, data = d\<rparr> sz = Inl Abort
   \<and> Allocator_supports_free_all \<lparr>type = ALLOCATOR_UNSET, data = d\<rparr> = Inl Abort
   \<and> Allocator_free_all \<lparr>type = ALLOCATOR_MALLOC, data = d\<rparr> h = Inl Abort
   \<and> Allocator_free_all \<lparr>type = ALLOCATOR_NULL, data = d\<rparr> h = Inl Abort
   \<and> Allocator_supports_free_all \<lparr>type = ALLOCATOR_MALLOC, data = d\<rparr> = Inr 0
   \<and> Allocator_supports_free_all \<lparr>type = ALLOCATOR_NULL, data = d\<rparr> = Inr 0
   \<and> Allocator_supports_free_all \<lparr>type = ALLOCATOR_ARENA, data = d\<rparr> = Inr 1
   \<and> Allocator_supports_free_all \<lparr>type = ALLOCATOR_RECORDED, data = d\<rparr> = Inr 1
   \<and> Allocator_supports_free_all \<lparr>type = ALLOCATOR_TESTING, data = d\<rparr> = Inr 1"
  by (simp add: Allocator_alloc_def Allocator_zalloc_def Allocator_realloc_def Allocator_free_def
      Allocator_free_all_def Allocator_good_size_def Allocator_supports_free_all_def)

text \<open>
  Claim C10.  Freeing the null pointer returns normally under each of the five strategies,
  whatever the size, and leaves the context (and the heap) as it was; under the arena
  strategy so does freeing any pointer with size 0.
\<close>

theorem free_null_accepted:
  "Allocator_free \<lparr>type = ALLOCATOR_MALLOC, data = d\<rparr> h 0 s
     = Inr (\<lparr>type = ALLOCATOR_MALLOC, data = d\<rparr>, h)
   \<and> Allocator_free \<lparr>type = ALLOCATOR_NULL, data = d\<rparr> h 0 s
     = Inr (\<lparr>type = ALLOCATOR_NULL, data = d\<rparr>, h)
   \<and> Allocator_free \<lparr>type = ALLOCATOR_ARENA, data = ArenaData aa\<rparr> h 0 s
     = Inr (\<lparr>type = ALLOCATOR_ARENA, data = ArenaData aa\<rparr>, h)
   \<and> Allocator_free \<lparr>type = ALLOCATOR_RECORDED, data = RecordedData r\<rparr> h 0 s
     = Inr (\<lparr>type = ALLOCATOR_RECORDED, data = RecordedData r\<rparr>, h)
   \<and> Allocator_free \<lparr>type = ALLOCATOR_TESTING, data = TestingData ta\<rparr> h 0 s
     = Inr (\<lparr>type = ALLOCATOR_TESTING, data = TestingData ta\<rparr>, h)
   \<and> Allocator_free \<lparr>type = ALLOCATOR_ARENA, data = ArenaData aa\<rparr> h p 0
     = Inr (\<lparr>type = ALLOCATOR_ARENA, data = ArenaData aa\<rparr>, h)
   \<and> ArenaAllocator_free aa h p 0 = Inr (aa, h)"
  by (simp add: Allocator_free_def free_def returning_void_def ArenaAllocator_free_def
      recording_free_def testing_free_def)

subsection \<open>The arena\<close>

lemma consts_simps:
  "ARENA_SIZE = 524288" "BIG_ALLOC_THRESH = 262144" "ARENA_BUFFER_SIZE = 524272"
  by (simp_all add: ARENA_SIZE_def ARENA_PAGE_SIZE_def BIG_ALLOC_THRESH_def ARENA_BUFFER_SIZE_def)

lemma arena_count_length: "arena_count aa = length (arena aa)"
proof -
  have "fold (\<lambda>a n. n + 1) xs k = length xs + k" for xs :: "Arena list" and k :: nat
    by (induction xs arbitrary: k) auto
  then show ?thesis by (simp add: arena_count_def)
qed

lemma Big_alloc_Sentinel:
  "answers h = p # rest \<Longrightarrow> p \<noteq> 0 \<Longrightarrow>
   Big_alloc aa h Sentinel sz =
     Inr (p + 64,
          aa\<lparr>bigs := AList.update p \<lparr>nxt = NullNode, prv = Sentinel, bsize = sz\<rparr> (bigs aa),
             big_allocations := (big_allocations aa)\<lparr>nxt := BigNode p\<rparr>\<rparr>,
          h\<lparr>answers := rest\<rparr>)"
  by (simp add: Big_alloc_def Big_init_def set_next_def malloc_def sizeof_BigAllocation_def
      update_conv')

lemma alloc_small:
  "ArenaAllocator_round_size_up s \<le> BIG_ALLOC_THRESH \<Longrightarrow>
   ArenaAllocator_alloc aa h s =
     (let sz = ArenaAllocator_round_size_up s in
      if (case arena aa of [] \<Rightarrow> True | blk # _ \<Rightarrow> sz > ARENA_BUFFER_SIZE - used blk)
      then (case answers h of
              [] \<Rightarrow> Inr (0, aa, h)
            | p # ps \<Rightarrow>
                if p = 0 then Inr (0, aa, h\<lparr>answers := ps\<rparr>)
                else Inr (p + 16, aa\<lparr>arena := \<lparr>base = p, used = sz\<rparr> # arena aa\<rparr>, h\<lparr>answers := ps\<rparr>))
      else (case arena aa of
              [] \<Rightarrow> Inl NullDeref
            | blk # rest \<Rightarrow> Inr (buff blk + used blk, aa\<lparr>arena := blk\<lparr>used := used blk + sz\<rparr> # rest\<rparr>, h)))"
  by (auto simp: ArenaAllocator_alloc_def ArenaAllocator_alloc_arena_def malloc_def Let_def buff_def
      split: list.splits)

text \<open>
  Claim C7, as stated, fails when "the block's capacity" is the capacity of a block's
  buffer, \<^verbatim>\<open>ARENA_BUFFER_SIZE\<close> (what \<^verbatim>\<open>ArenaAllocator_stats\<close> reports as capacity): a
  request of 262144 bytes exceeds half of it (262136), yet it is served by bumping in a
  block and the big list stays empty.
\<close>

theorem alloc_routing_counterexample:
  "ARENA_BUFFER_SIZE div 2 < ArenaAllocator_round_size_up 262144
   \<and> ArenaAllocator_alloc empty_arena (heap_of [4096]) 262144
     = Inr (4112, \<lparr>arena = [\<lparr>base = 4096, used = 262144\<rparr>],
                   big_allocations = \<lparr>nxt = NullNode, prv = NullNode\<rparr>, bigs = []\<rparr>, heap_of [])"
  by (simp add: consts_simps ArenaAllocator_round_size_up_def ArenaAllocator_alloc_def
      ArenaAllocator_alloc_arena_def malloc_def heap_of_def empty_arena_def buff_def)

text \<open>
  Claim C7, amended.  The threshold is \<^verbatim>\<open>BIG_ALLOC_THRESH = ARENA_SIZE / 2 = 262144\<close>,
  half the size of a whole block, header included.  \<^verbatim>\<open>alloc(s)\<close> rounds \<open>s\<close> up to a
  multiple of 8; if the rounded size exceeds the threshold the request is a standalone
  heap allocation whose header is linked after the sentinel (the pointer returned is
  past the header, the blocks are untouched); otherwise it is served by bumping the
  current block, or a fresh one, and the big list is untouched.  The heap is assumed to
  answer the next call with a non-null address.
\<close>

theorem alloc_routing:
  assumes "answers h = p # rest" and "p \<noteq> 0"
  shows "BIG_ALLOC_THRESH = ARENA_SIZE div 2 \<and> BIG_ALLOC_THRESH = 262144
    \<and> (if ArenaAllocator_round_size_up s > BIG_ALLOC_THRESH
        then ArenaAllocator_alloc aa h s =
               Inr (p + sizeof_BigAllocation,
                    aa\<lparr>bigs := AList.update p
                                 \<lparr>nxt = NullNode, prv = Sentinel,
                                   bsize = ArenaAllocator_round_size_up s\<rparr> (bigs aa),
                       big_allocations := (big_allocations aa)\<lparr>nxt := BigNode p\<rparr>\<rparr>,
                    h\<lparr>answers := rest\<rparr>)
        else (\<exists>blk older h'.
               ArenaAllocator_alloc aa h s =
                 Inr (buff blk + used blk,
                      aa\<lparr>arena := blk\<lparr>used := used blk + ArenaAllocator_round_size_up s\<rparr> # older\<rparr>,
                      h')
               \<and> (blk # older = arena aa \<and> h' = h
                    \<or> blk = \<lparr>base = p, used = 0\<rparr> \<and> older = arena aa \<and> h' = h\<lparr>answers := rest\<rparr>)))"
proof (cases "ArenaAllocator_round_size_up s > BIG_ALLOC_THRESH")
  case True
  then show ?thesis
    using Big_alloc_Sentinel [OF assms, of aa "ArenaAllocator_round_size_up s"]
    by (simp add: ArenaAllocator_alloc_def sizeof_BigAllocation_def consts_simps)
next
  case False
  then have small: "ArenaAllocator_round_size_up s \<le> BIG_ALLOC_THRESH" by simp
  have "\<exists>blk older h'.
          ArenaAllocator_alloc aa h s =
            Inr (buff blk + used blk,
                 aa\<lparr>arena := blk\<lparr>used := used blk + ArenaAllocator_round_size_up s\<rparr> # older\<rparr>,
                 h')
          \<and> (blk # older = arena aa \<and> h' = h
               \<or> blk = \<lparr>base = p, used = 0\<rparr> \<and> older = arena aa \<and> h' = h\<lparr>answers := rest\<rparr>)"
  proof (cases "case arena aa of [] \<Rightarrow> True
                | blk # _ \<Rightarrow> ArenaAllocator_round_size_up s > ARENA_BUFFER_SIZE - used blk")
    case True
    show ?thesis
      apply (rule exI [where x = "\<lparr>base = p, used = 0\<rparr>"])
      apply (rule exI [where x = "arena aa"])
      apply (rule exI [where x = "h\<lparr>answers := rest\<rparr>"])
      using True assms by (simp add: alloc_small [OF small] buff_def)
  next
    case nofresh: False
    then obtain blk older where b: "arena aa = blk # older"
      by (cases "arena aa") auto
    show ?thesis
      apply (rule exI [where x = blk])
      apply (rule exI [where x = older])
      apply (rule exI [where x = h])
      using nofresh b by (simp add: alloc_small [OF small])
  qed
  then show ?thesis using False by (simp add: consts_simps)
qed

theorem alloc_routing_witness:
  "answers (heap_of [4096]) = 4096 # [] \<and> (4096 :: ptr) \<noteq> 0
   \<and> ArenaAllocator_alloc empty_arena (heap_of [4096]) 300000 =
       Inr (4160,
            \<lparr>arena = [], big_allocations = \<lparr>nxt = BigNode 4096, prv = NullNode\<rparr>,
              bigs = [(4096, \<lparr>nxt = NullNode, prv = Sentinel, bsize = 300000\<rparr>)]\<rparr>,
            heap_of [])"
  using alloc_routing [where h = "heap_of [4096]" and p = 4096 and rest = "[]"
      and s = 300000 and aa = empty_arena]
  by (simp add: heap_of_def empty_arena_def ArenaAllocator_round_size_up_def consts_simps
      sizeof_BigAllocation_def)

lemma round_small:
  assumes "s \<le> BIG_ALLOC_THRESH"
  shows "unat (ArenaAllocator_round_size_up s) = (unat s + 7) div 8 * 8"
    and "unat (ArenaAllocator_round_size_up s) \<le> 262144"
    and "ArenaAllocator_round_size_up s \<le> BIG_ALLOC_THRESH"
proof -
  have n: "unat s \<le> 262144" using assms by (simp add: word_le_nat_alt consts_simps)
  then show eq: "unat (ArenaAllocator_round_size_up s) = (unat s + 7) div 8 * 8"
    by (intro unat_round_size_up_small) simp
  have "(unat s + 7) div 8 \<le> (262144 + 7) div 8" using n by (intro div_le_mono) simp
  then have "(unat s + 7) div 8 * 8 \<le> 262144" by simp
  then show "unat (ArenaAllocator_round_size_up s) \<le> 262144" using eq by simp
  then show "ArenaAllocator_round_size_up s \<le> BIG_ALLOC_THRESH"
    by (simp add: word_le_nat_alt consts_simps)
qed

lemma round_mono_small:
  assumes "c \<le> b" and "b \<le> BIG_ALLOC_THRESH"
  shows "ArenaAllocator_round_size_up c \<le> ArenaAllocator_round_size_up b"
proof -
  have cs: "c \<le> BIG_ALLOC_THRESH" using assms by simp
  have "(unat c + 7) div 8 \<le> (unat b + 7) div 8"
    using assms(1) by (intro div_le_mono) (simp add: word_le_nat_alt)
  then show ?thesis
    by (simp add: word_le_nat_alt round_small(1) [OF cs] round_small(1) [OF assms(2)])
qed

lemma round_eq_0_iff_small:
  assumes "s \<le> BIG_ALLOC_THRESH"
  shows "ArenaAllocator_round_size_up s = 0 \<longleftrightarrow> s = 0"
proof
  assume "ArenaAllocator_round_size_up s = 0"
  then have "unat s \<le> 0"
    using nat_round8_bounds(1) [of "unat s"] round_small(1) [OF assms] by simp
  then show "s = 0" by (simp add: unat_eq_0)
qed (simp add: ArenaAllocator_round_size_up_def)

text \<open>
  Claim C1, as stated, fails on the code: a block's buffer has \<open>524288 - 16\<close> bytes, so
  after 4000 bytes a request of 200 bytes still fits; it is bumped in the same block and
  the block count stays 1.  Nor would a block of 4096 bytes give the scenario: 4000 bytes
  exceed half of it, so \<open>A\<close> would be a big allocation outside every block, \<open>B\<close> would open the
  first block, and the block count would again be 1.
\<close>

theorem block_overflow_counterexample:
  "ArenaAllocator_alloc empty_arena (heap_of [4096, 1052672]) 4000
     = Inr (4112, empty_arena\<lparr>arena := [\<lparr>base = 4096, used = 4000\<rparr>]\<rparr>, heap_of [1052672])
   \<and> ArenaAllocator_alloc (empty_arena\<lparr>arena := [\<lparr>base = 4096, used = 4000\<rparr>]\<rparr>)
        (heap_of [1052672]) 200
     = Inr (8112, empty_arena\<lparr>arena := [\<lparr>base = 4096, used = 4200\<rparr>]\<rparr>, heap_of [1052672])
   \<and> arena_count (empty_arena\<lparr>arena := [\<lparr>base = 4096, used = 4200\<rparr>]\<rparr>) = 1
   \<and> ArenaAllocator_alloc_with ARENA_SIZE = ArenaAllocator_alloc
   \<and> ArenaAllocator_alloc_with 4096 empty_arena (heap_of [4096, 1052672]) 4000
     = Inr (4160,
            empty_arena\<lparr>big_allocations := \<lparr>nxt = BigNode 4096, prv = NullNode\<rparr>,
                          bigs := [(4096, \<lparr>nxt = NullNode, prv = Sentinel, bsize = 4000\<rparr>)]\<rparr>,
            heap_of [1052672])
   \<and> ArenaAllocator_alloc_with 4096
        (empty_arena\<lparr>big_allocations := \<lparr>nxt = BigNode 4096, prv = NullNode\<rparr>,
                      bigs := [(4096, \<lparr>nxt = NullNode, prv = Sentinel, bsize = 4000\<rparr>)]\<rparr>)
        (heap_of [1052672]) 200
     = Inr (1052688,
            empty_arena\<lparr>arena := [\<lparr>base = 1052672, used = 200\<rparr>],
                          big_allocations := \<lparr>nxt = BigNode 4096, prv = NullNode\<rparr>,
                          bigs := [(4096, \<lparr>nxt = NullNode, prv = Sentinel, bsize = 4000\<rparr>)]\<rparr>,
            heap_of [])
   \<and> arena_count
        (empty_arena\<lparr>arena := [\<lparr>base = 1052672, used = 200\<rparr>],
                      big_allocations := \<lparr>nxt = BigNode 4096, prv = NullNode\<rparr>,
                      bigs := [(4096, \<lparr>nxt = NullNode, prv = Sentinel, bsize = 4000\<rparr>)]\<rparr>) = 1"
proof -
  have "ArenaAllocator_alloc_with ARENA_SIZE aa h s = ArenaAllocator_alloc aa h s" for aa h s
    unfolding ArenaAllocator_alloc_with_def ArenaAllocator_alloc_def BIG_ALLOC_THRESH_def
      ARENA_BUFFER_SIZE_def by (rule refl)
  then have "ArenaAllocator_alloc_with ARENA_SIZE = ArenaAllocator_alloc" by (intro ext)
  then show ?thesis
    by (simp add: consts_simps ArenaAllocator_round_size_up_def ArenaAllocator_alloc_def
        ArenaAllocator_alloc_with_def ArenaAllocator_alloc_arena_def Big_alloc_def Big_init_def
        set_next_def sizeof_BigAllocation_def malloc_def heap_of_def empty_arena_def buff_def
        arena_count_def)
qed

lemma first_alloc:
  assumes "answers h = p1 # ps" and "p1 \<noteq> 0" and "a \<le> BIG_ALLOC_THRESH"
  shows "ArenaAllocator_alloc empty_arena h a =
           Inr (p1 + 16,
                empty_arena\<lparr>arena := [\<lparr>base = p1, used = ArenaAllocator_round_size_up a\<rparr>]\<rparr>,
                h\<lparr>answers := ps\<rparr>)"
  using assms by (simp add: alloc_small [OF round_small(3)] empty_arena_def)

lemma second_alloc:
  assumes "answers h = p2 # ps" and "p2 \<noteq> 0"
    and "a \<le> BIG_ALLOC_THRESH" and "b \<le> BIG_ALLOC_THRESH"
  shows "ArenaAllocator_alloc
           (empty_arena\<lparr>arena := [\<lparr>base = p1, used = ArenaAllocator_round_size_up a\<rparr>]\<rparr>) h b =
           (if unat (ArenaAllocator_round_size_up a) + unat (ArenaAllocator_round_size_up b) > 524272
            then Inr (p2 + 16,
                      empty_arena\<lparr>arena := [\<lparr>base = p2, used = ArenaAllocator_round_size_up b\<rparr>,
                                              \<lparr>base = p1, used = ArenaAllocator_round_size_up a\<rparr>]\<rparr>,
                      h\<lparr>answers := ps\<rparr>)
            else Inr (p1 + 16 + ArenaAllocator_round_size_up a,
                      empty_arena\<lparr>arena := [\<lparr>base = p1, used = ArenaAllocator_round_size_up a
                                                 + ArenaAllocator_round_size_up b\<rparr>]\<rparr>,
                      h))"
proof -
  have ra: "unat (ArenaAllocator_round_size_up a) \<le> 262144" by (rule round_small(2) [OF assms(3)])
  have le: "ArenaAllocator_round_size_up a \<le> 524272"
    using ra by (simp add: word_le_nat_alt)
  have "unat (524272 - ArenaAllocator_round_size_up a) = 524272 - unat (ArenaAllocator_round_size_up a)"
    using unat_sub [OF le] by simp
  then have "(ARENA_BUFFER_SIZE - ArenaAllocator_round_size_up a < ArenaAllocator_round_size_up b)
        \<longleftrightarrow> unat (ArenaAllocator_round_size_up a) + unat (ArenaAllocator_round_size_up b) > 524272"
    using ra by (auto simp add: word_less_nat_alt consts_simps)
  then show ?thesis
    using assms(1,2)
    by (simp add: alloc_small [OF round_small(3) [OF assms(4)]] empty_arena_def buff_def)
qed

text \<open>
  Claim C1, amended.  On an empty arena, with a heap that answers, an allocation of \<open>a\<close>
  bytes followed by one of \<open>b\<close> bytes (both at most the big threshold) puts the second in a
  new block exactly when the rounded sizes together exceed \<^verbatim>\<open>ARENA_BUFFER_SIZE\<close> (the
  block count is then 2); otherwise the second is placed right after the first and the
  block count is 1.  In both cases the memory is what it was before: neither allocation
  writes a byte of it.
\<close>

theorem two_allocs_block_count:
  assumes "answers h = p1 # p2 # rest" and "p1 \<noteq> 0" and "p2 \<noteq> 0"
    and "a \<le> BIG_ALLOC_THRESH" and "b \<le> BIG_ALLOC_THRESH"
  shows "\<exists>A aa1 h1 B aa2 h2.
           ArenaAllocator_alloc empty_arena h a = Inr (A, aa1, h1)
         \<and> A = p1 + 16 \<and> arena_count aa1 = 1
         \<and> ArenaAllocator_alloc aa1 h1 b = Inr (B, aa2, h2)
         \<and> mem h2 = mem h
         \<and> (if unat (ArenaAllocator_round_size_up a) + unat (ArenaAllocator_round_size_up b)
                 > unat ARENA_BUFFER_SIZE
             then arena_count aa2 = 2 \<and> B = p2 + 16
             else arena_count aa2 = 1 \<and> B = A + ArenaAllocator_round_size_up a)"
  using first_alloc [OF assms(1,2,4)]
    second_alloc [where h = "h\<lparr>answers := p2 # rest\<rparr>" and ?p2.0 = p2 and ps = rest
      and a = a and b = b and ?p1.0 = p1, OF _ assms(3,4,5)]
  by (simp add: arena_count_length consts_simps)

theorem two_allocs_block_count_witness:
  "answers (heap_of [4096, 1052672]) = 4096 # 1052672 # [] \<and> (4096 :: ptr) \<noteq> 0
   \<and> (1052672 :: ptr) \<noteq> 0 \<and> (262144 :: size_t) \<le> BIG_ALLOC_THRESH
   \<and> (\<exists>A aa1 h1 B aa2 h2.
           ArenaAllocator_alloc empty_arena (heap_of [4096, 1052672]) 262144 = Inr (A, aa1, h1)
         \<and> A = 4112 \<and> arena_count aa1 = 1
         \<and> ArenaAllocator_alloc aa1 h1 262144 = Inr (B, aa2, h2)
         \<and> mem h2 = mem (heap_of [4096, 1052672])
         \<and> arena_count aa2 = 2 \<and> B = 1052688)"
  using two_allocs_block_count [where h = "heap_of [4096, 1052672]" and ?p1.0 = 4096
      and ?p2.0 = 1052672 and rest = "[]" and a = 262144 and b = 262144]
  by (simp add: heap_of_def consts_simps ArenaAllocator_round_size_up_def)

lemma unat_in_block:
  assumes "block_at p" and "unat r \<le> 262144"
  shows "unat (p + 16 + r) = unat p + 16 + unat r"
proof -
  have p: "unat p + 524288 \<le> 2 ^ 64" using assms(1) by (simp add: block_at_def consts_simps)
  then have "unat p + unat (16 :: ptr) < 2 ^ 64" by simp
  then have 1: "unat (p + 16) = unat p + 16" using unat_add_lem [of p 16] by simp
  then have "unat (p + 16) + unat r < 2 ^ 64" using p assms(2) by simp
  then show ?thesis using unat_add_lem [of "p + 16" r] 1 by simp
qed

lemma in_block_nonzero:
  assumes "block_at p" and "unat r \<le> 262144"
  shows "p + 16 + r \<noteq> 0"
proof
  assume "p + 16 + r = 0"
  then have "unat (p + 16 + r) = unat (0 :: ptr)" by (rule arg_cong)
  then show False by (simp only: unat_in_block [OF assms]) simp
qed

lemma in_block_nonzero0:
  assumes "block_at p"
  shows "p + 16 \<noteq> 0"
  using in_block_nonzero [OF assms, of 0] by simp

lemma blocks_apart:
  assumes "block_at p" and "block_at q" and "disjoint_blocks p q"
    and "unat r \<le> 262144" and "unat t \<le> 262144"
  shows "p + 16 + r \<noteq> q + 16 + t"
proof
  assume "p + 16 + r = q + 16 + t"
  then have "unat (p + 16 + r) = unat (q + 16 + t)" by (rule arg_cong)
  then have "unat p + 16 + unat r = unat q + 16 + unat t"
    by (simp only: unat_in_block [OF assms(1,4)] unat_in_block [OF assms(2,5)])
  then show False using assms(3,4,5) by (auto simp: disjoint_blocks_def consts_simps)
qed

lemma free_small:
  assumes "p \<noteq> 0" and "s \<noteq> 0" and "s \<le> BIG_ALLOC_THRESH"
  shows "ArenaAllocator_free aa h p s =
           (case arena aa of
              [] \<Rightarrow> Inl AssertFail
            | blk # rest \<Rightarrow>
                if p + ArenaAllocator_round_size_up s = buff blk + used blk
                then Inr (aa\<lparr>arena := blk\<lparr>used := used blk - ArenaAllocator_round_size_up s\<rparr> # rest\<rparr>, h)
                else Inr (aa, h))"
proof -
  have "\<not> ArenaAllocator_round_size_up s > BIG_ALLOC_THRESH"
    using round_small(3) [OF assms(3)] by simp
  then show ?thesis using assms(1,2) by (simp add: ArenaAllocator_free_def Let_def)
qed

text \<open>
  Claim C6, as stated, fails when \<open>B\<close> is empty: after \<open>A\<close> of 8 bytes and \<open>B\<close> of 0 bytes,
  \<open>A\<close> still ends at the frontier, and freeing \<open>A\<close> takes the used counter from 8 to 0.
\<close>

theorem lifo_reclaim_counterexample:
  "ArenaAllocator_alloc empty_arena (heap_of [4096]) 8
     = Inr (4112, empty_arena\<lparr>arena := [\<lparr>base = 4096, used = 8\<rparr>]\<rparr>, heap_of [])
   \<and> ArenaAllocator_alloc (empty_arena\<lparr>arena := [\<lparr>base = 4096, used = 8\<rparr>]\<rparr>) (heap_of []) 0
     = Inr (4120, empty_arena\<lparr>arena := [\<lparr>base = 4096, used = 8\<rparr>]\<rparr>, heap_of [])
   \<and> ArenaAllocator_free (empty_arena\<lparr>arena := [\<lparr>base = 4096, used = 8\<rparr>]\<rparr>) (heap_of []) 4112 8
     = Inr (empty_arena\<lparr>arena := [\<lparr>base = 4096, used = 0\<rparr>]\<rparr>, heap_of [])"
  by (simp add: consts_simps ArenaAllocator_round_size_up_def ArenaAllocator_alloc_def
      ArenaAllocator_alloc_arena_def ArenaAllocator_free_def malloc_def heap_of_def
      empty_arena_def buff_def)

text \<open>
  Claim C6, amended.  From an empty arena, after \<open>A\<close> of \<open>a\<close> bytes and \<open>B\<close> of \<open>b\<close> bytes (both
  at most the big threshold, the heap answering with blocks that lie in the address
  space and do not overlap): freeing \<open>B\<close> with size \<open>b\<close> makes the next allocation of any
  size \<open>c \<le> b\<close> return the address of \<open>B\<close>; and if \<open>b\<close> is not 0, freeing \<open>A\<close> instead leaves
  the allocator, its used counters included, as it was.
\<close>

theorem lifo_reclaim:
  assumes h: "answers h = p1 # p2 # rest"
    and p1: "block_at p1" and p2: "block_at p2" and dj: "disjoint_blocks p1 p2"
    and a: "a \<le> BIG_ALLOC_THRESH" and b: "b \<le> BIG_ALLOC_THRESH"
  shows "\<exists>A aa1 h1 B aa2 h2 aa3.
           ArenaAllocator_alloc empty_arena h a = Inr (A, aa1, h1)
         \<and> ArenaAllocator_alloc aa1 h1 b = Inr (B, aa2, h2)
         \<and> ArenaAllocator_free aa2 h2 B b = Inr (aa3, h2)
         \<and> (\<forall>c. c \<le> b \<longrightarrow> (\<exists>aa4. ArenaAllocator_alloc aa3 h2 c = Inr (B, aa4, h2)))
         \<and> (b \<noteq> 0 \<longrightarrow> ArenaAllocator_free aa2 h2 A a = Inr (aa2, h2))"
proof -
  define ra rb where "ra = ArenaAllocator_round_size_up a" and "rb = ArenaAllocator_round_size_up b"
  define E where "E = empty_arena"
  have ra: "unat ra \<le> 262144" and rb: "unat rb \<le> 262144"
    unfolding ra_def rb_def using round_small(2) a b by auto
  have nz1: "p1 \<noteq> 0" and nz2: "p2 \<noteq> 0" using p1 p2 by (auto simp: block_at_def)
  define h1 where "h1 = h\<lparr>answers := p2 # rest\<rparr>"
  have h1: "answers h1 = p2 # rest" by (simp add: h1_def)
  define aa1 where "aa1 = E\<lparr>arena := [\<lparr>base = p1, used = ra\<rparr>]\<rparr>"
  have A: "ArenaAllocator_alloc empty_arena h a = Inr (p1 + 16, aa1, h1)"
    using first_alloc [OF h nz1 a] by (simp add: aa1_def h1_def ra_def E_def)
  have A0: "p1 + 16 \<noteq> 0" by (rule in_block_nonzero0 [OF p1])
  have second: "ArenaAllocator_alloc aa1 h1 c =
           (if unat ra + unat (ArenaAllocator_round_size_up c) > 524272
            then Inr (p2 + 16,
                      E\<lparr>arena := [\<lparr>base = p2, used = ArenaAllocator_round_size_up c\<rparr>,
                                              \<lparr>base = p1, used = ra\<rparr>]\<rparr>,
                      h1\<lparr>answers := rest\<rparr>)
            else Inr (p1 + 16 + ra,
                      E\<lparr>arena := [\<lparr>base = p1, used = ra + ArenaAllocator_round_size_up c\<rparr>]\<rparr>,
                      h1))" if "c \<le> BIG_ALLOC_THRESH" for c
    using second_alloc [OF h1 nz2 a that, of p1] by (simp add: aa1_def ra_def E_def)
  show ?thesis
  proof (cases "unat ra + unat rb > 524272")
    case False
    define aa2 where "aa2 = E\<lparr>arena := [\<lparr>base = p1, used = ra + rb\<rparr>]\<rparr>"
    have B: "ArenaAllocator_alloc aa1 h1 b = Inr (p1 + 16 + ra, aa2, h1)"
      using second [OF b] False by (simp add: rb_def aa2_def)
    have B0: "p1 + 16 + ra \<noteq> 0" by (rule in_block_nonzero [OF p1 ra])
    have F: "ArenaAllocator_free aa2 h1 (p1 + 16 + ra) b = Inr (aa1, h1)"
    proof (cases "b = 0")
      case True
      then have "rb = 0" by (simp add: rb_def ArenaAllocator_round_size_up_def)
      then show ?thesis using True by (simp add: ArenaAllocator_free_def aa2_def aa1_def)
    next
      case False
      show ?thesis
        by (simp add: free_small [OF B0 False b] aa2_def aa1_def buff_def rb_def [symmetric])
    qed
    have N: "\<exists>aa4. ArenaAllocator_alloc aa1 h1 c = Inr (p1 + 16 + ra, aa4, h1)" if c: "c \<le> b" for c
    proof -
      have cs: "c \<le> BIG_ALLOC_THRESH" using c b by simp
      have "unat (ArenaAllocator_round_size_up c) \<le> unat rb"
        using round_mono_small [OF c b] by (simp add: rb_def word_le_nat_alt)
      then show ?thesis using second [OF cs] False by simp
    qed
    have R: "ArenaAllocator_free aa2 h1 (p1 + 16) a = Inr (aa2, h1)" if "b \<noteq> 0"
    proof (cases "a = 0")
      case True
      then show ?thesis by (simp add: ArenaAllocator_free_def)
    next
      case False
      have "rb \<noteq> 0" using that round_eq_0_iff_small [OF b] by (simp add: rb_def)
      then show ?thesis
        by (simp add: free_small [OF A0 False a] aa2_def buff_def ra_def [symmetric])
    qed
    show ?thesis using A B F N R by blast
  next
    case True
    define aa2 where "aa2 = E\<lparr>arena := [\<lparr>base = p2, used = rb\<rparr>, \<lparr>base = p1, used = ra\<rparr>]\<rparr>"
    define aa3 where "aa3 = E\<lparr>arena := [\<lparr>base = p2, used = 0\<rparr>, \<lparr>base = p1, used = ra\<rparr>]\<rparr>"
    define h2 where "h2 = h1\<lparr>answers := rest\<rparr>"
    have B: "ArenaAllocator_alloc aa1 h1 b = Inr (p2 + 16, aa2, h2)"
      using second [OF b] True by (simp add: rb_def aa2_def h2_def)
    have B0: "p2 + 16 \<noteq> 0" by (rule in_block_nonzero0 [OF p2])
    have bnz: "b \<noteq> 0"
    proof
      assume "b = 0"
      then have "rb = 0" by (simp add: rb_def ArenaAllocator_round_size_up_def)
      then show False using True ra by simp
    qed
    have F: "ArenaAllocator_free aa2 h2 (p2 + 16) b = Inr (aa3, h2)"
      by (simp add: free_small [OF B0 bnz b] aa2_def aa3_def buff_def rb_def [symmetric])
    have N: "\<exists>aa4. ArenaAllocator_alloc aa3 h2 c = Inr (p2 + 16, aa4, h2)" if c: "c \<le> b" for c
    proof -
      have cs: "c \<le> BIG_ALLOC_THRESH" using c b by simp
      have "unat (ArenaAllocator_round_size_up c) \<le> 262144" by (rule round_small(2) [OF cs])
      then have "\<not> ArenaAllocator_round_size_up c > ARENA_BUFFER_SIZE"
        by (simp add: word_less_nat_alt consts_simps)
      then show ?thesis
        by (simp add: alloc_small [OF round_small(3) [OF cs]] aa3_def buff_def)
    qed
    have R: "ArenaAllocator_free aa2 h2 (p1 + 16) a = Inr (aa2, h2)"
    proof (cases "a = 0")
      case True
      then show ?thesis by (simp add: ArenaAllocator_free_def)
    next
      case False
      have "p1 + 16 + ra \<noteq> p2 + 16 + rb" by (rule blocks_apart [OF p1 p2 dj ra rb])
      then show ?thesis
        by (simp add: free_small [OF A0 False a] aa2_def buff_def ra_def [symmetric])
    qed
    show ?thesis using A B F N R by blast
  qed
qed

theorem lifo_reclaim_witness:
  "answers (heap_of [4096, 1052672]) = 4096 # 1052672 # []
   \<and> block_at 4096 \<and> block_at 1052672 \<and> disjoint_blocks 4096 1052672
   \<and> (100 :: size_t) \<le> BIG_ALLOC_THRESH \<and> (50 :: size_t) \<le> BIG_ALLOC_THRESH
   \<and> (\<exists>A aa1 h1 B aa2 h2 aa3.
           ArenaAllocator_alloc empty_arena (heap_of [4096, 1052672]) 100 = Inr (A, aa1, h1)
         \<and> ArenaAllocator_alloc aa1 h1 50 = Inr (B, aa2, h2)
         \<and> ArenaAllocator_free aa2 h2 B 50 = Inr (aa3, h2)
         \<and> (\<forall>c. c \<le> 50 \<longrightarrow> (\<exists>aa4. ArenaAllocator_alloc aa3 h2 c = Inr (B, aa4, h2)))
         \<and> ArenaAllocator_free aa2 h2 A 100 = Inr (aa2, h2))"
  using lifo_reclaim [where h = "heap_of [4096, 1052672]" and ?p1.0 = 4096 and ?p2.0 = 1052672
      and rest = "[]" and a = 100 and b = 50]
  by (simp add: heap_of_def block_at_def disjoint_blocks_def consts_simps)

lemma alloc_small_frontier:
  assumes "ArenaAllocator_round_size_up s \<le> BIG_ALLOC_THRESH"
    and "ArenaAllocator_alloc aa0 h0 s = Inr (A, aa, h)" and "A \<noteq> 0"
    and "arena aa = blk # older"
  shows "A + ArenaAllocator_round_size_up s = buff blk + used blk"
  using assms(2,3,4) unfolding alloc_small [OF assms(1)]
  by (auto simp: Let_def buff_def split: if_splits list.splits)

text \<open>
  Claim C3, as stated, fails: with \<open>a = 1\<close> and \<open>k = 1\<close> both sizes round to 8, the used
  counter stays at 8, while the rounding of \<open>k\<close> is 8.
\<close>

theorem realloc_in_place_counterexample:
  "ArenaAllocator_alloc empty_arena (heap_of [4096]) 1
     = Inr (4112, empty_arena\<lparr>arena := [\<lparr>base = 4096, used = 8\<rparr>]\<rparr>, heap_of [])
   \<and> ArenaAllocator_realloc (empty_arena\<lparr>arena := [\<lparr>base = 4096, used = 8\<rparr>]\<rparr>) (heap_of [])
        4112 1 (1 + 1)
     = Inr (4112, empty_arena\<lparr>arena := [\<lparr>base = 4096, used = 8\<rparr>]\<rparr>, heap_of [])
   \<and> ArenaAllocator_round_size_up 1 = 8"
  by (simp add: consts_simps ArenaAllocator_round_size_up_def ArenaAllocator_alloc_def
      ArenaAllocator_alloc_arena_def ArenaAllocator_realloc_def malloc_def heap_of_def
      empty_arena_def buff_def)

lemma round_add_aligned:
  assumes "a AND 7 = 0" and "unat a + unat k \<le> 262144"
  shows "ArenaAllocator_round_size_up (a + k) - ArenaAllocator_round_size_up a
           = ArenaAllocator_round_size_up k"
proof -
  have ak: "unat (a + k) = unat a + unat k"
    using assms(2) unat_add_lem [of a k] by simp
  have s1: "a + k \<le> BIG_ALLOC_THRESH" and s2: "k \<le> BIG_ALLOC_THRESH"
    using assms(2) ak by (simp_all add: word_le_nat_alt consts_simps)
  have ra: "ArenaAllocator_round_size_up a = a"
    using assms(1) by (simp add: ArenaAllocator_round_size_up_def)
  have "8 dvd unat a" using assms(1) unat_and_7 [of a] by (simp add: dvd_eq_mod_eq_0)
  then obtain q where q: "unat a = q * 8" by (auto simp: dvd_def)
  have "(unat a + unat k + 7) div 8 = q + (unat k + 7) div 8"
    unfolding q by (simp add: add.assoc)
  then have "unat (ArenaAllocator_round_size_up (a + k))
      = unat a + unat (ArenaAllocator_round_size_up k)"
    by (simp add: round_small(1) [OF s1] round_small(1) [OF s2] ak q add_mult_distrib)
  moreover have "unat a + unat (ArenaAllocator_round_size_up k) < 2 ^ 64"
    using assms(2) round_small(2) [OF s2] by simp
  ultimately have "ArenaAllocator_round_size_up (a + k) = a + ArenaAllocator_round_size_up k"
    using unat_add_lem [of a "ArenaAllocator_round_size_up k"] by (simp add: word_unat_eq_iff)
  then show ?thesis by (simp add: ra)
qed

text \<open>
  Claim C3, amended.  Let \<open>A\<close> be the result of the latest allocation, of \<open>a \<ge> 1\<close> bytes, and
  let \<open>a + k\<close> be at most the big threshold.  If the grown allocation still fits the
  current block, \<^verbatim>\<open>realloc(A, a, a + k)\<close> returns \<open>A\<close>, adds exactly
  \<open>round (a + k) - round a\<close> to the block's used counter and leaves the heap, hence every
  byte of memory, as it was.  The increase is \<open>round k\<close> whenever \<open>a\<close> is a multiple of 8.
\<close>

theorem realloc_in_place:
  assumes alloc: "ArenaAllocator_alloc aa0 h0 a = Inr (A, aa, h)" and A: "A \<noteq> 0"
    and a: "a \<noteq> 0" and ak: "unat a + unat k \<le> 262144"
    and blk: "arena aa = blk # older"
    and fits: "unat (used blk) + (unat (ArenaAllocator_round_size_up (a + k))
                 - unat (ArenaAllocator_round_size_up a)) \<le> unat ARENA_BUFFER_SIZE"
  shows "ArenaAllocator_realloc aa h A a (a + k) =
           Inr (A, aa\<lparr>arena := blk\<lparr>used := used blk + (ArenaAllocator_round_size_up (a + k)
                                          - ArenaAllocator_round_size_up a)\<rparr> # older\<rparr>, h)
         \<and> (a AND 7 = 0 \<longrightarrow>
              ArenaAllocator_round_size_up (a + k) - ArenaAllocator_round_size_up a
                = ArenaAllocator_round_size_up k)"
proof -
  define ra rn where "ra = ArenaAllocator_round_size_up a"
    and "rn = ArenaAllocator_round_size_up (a + k)"
  have uak: "unat (a + k) = unat a + unat k"
    using ak unat_add_lem [of a k] by simp
  have s1: "a + k \<le> BIG_ALLOC_THRESH" and s0: "a \<le> BIG_ALLOC_THRESH"
    using ak uak by (simp_all add: word_le_nat_alt consts_simps)
  have le: "ra \<le> rn" unfolding ra_def rn_def
    by (rule round_mono_small [OF _ s1]) (simp add: word_le_nat_alt uak)
  have ra: "ra \<le> BIG_ALLOC_THRESH" and rn: "rn \<le> BIG_ALLOC_THRESH"
    unfolding ra_def rn_def using round_small(3) s0 s1 by auto
  have nz: "a + k \<noteq> 0" using a uak by (simp add: word_unat_eq_iff)
  have front: "A + ra = buff blk + used blk"
    unfolding ra_def by (rule alloc_small_frontier [OF ra [unfolded ra_def] alloc A blk])
  have d: "unat (rn - ra) = unat rn - unat ra" by (rule unat_sub [OF le])
  have fits': "unat (used blk) + unat (rn - ra) \<le> 524272"
    using fits by (simp add: d [unfolded ra_def rn_def] ra_def rn_def consts_simps)
  then have "unat (used blk) + unat (rn - ra) < 2 ^ 64" by simp
  then have "unat (used blk + (rn - ra)) = unat (used blk) + unat (rn - ra)"
    using unat_add_lem [of "used blk" "rn - ra"] by simp
  then have "used blk + (rn - ra) \<le> ARENA_BUFFER_SIZE"
    using fits' by (simp add: word_le_nat_alt consts_simps)
  then have fit: "used blk - ra + rn \<le> ARENA_BUFFER_SIZE"
    by (simp add: diff_add_eq add_diff_eq)
  have same: "aa\<lparr>arena := blk # older\<rparr> = aa" using blk by simp
  have "ArenaAllocator_realloc aa h A a (a + k) =
          Inr (A, aa\<lparr>arena := blk\<lparr>used := used blk + (rn - ra)\<rparr> # older\<rparr>, h)"
  proof (cases "ra = rn")
    case True
    then show ?thesis using a nz same
      by (simp add: ArenaAllocator_realloc_def ra_def [symmetric] rn_def [symmetric])
  next
    case False
    have "\<not> ra > BIG_ALLOC_THRESH" "\<not> rn > BIG_ALLOC_THRESH" using ra rn by simp_all
    then show ?thesis using a nz False blk front fit
      by (simp add: ArenaAllocator_realloc_def ra_def [symmetric] rn_def [symmetric]
          diff_add_eq add_diff_eq)
  qed
  then show ?thesis
    using round_add_aligned [OF _ ak] by (simp add: ra_def rn_def)
qed

theorem realloc_in_place_witness:
  "ArenaAllocator_alloc empty_arena (heap_of [4096]) 16
      = Inr (4112, empty_arena\<lparr>arena := [\<lparr>base = 4096, used = 16\<rparr>]\<rparr>, heap_of [])
   \<and> (4112 :: ptr) \<noteq> 0 \<and> (16 :: size_t) \<noteq> 0
   \<and> ArenaAllocator_realloc (empty_arena\<lparr>arena := [\<lparr>base = 4096, used = 16\<rparr>]\<rparr>) (heap_of [])
        4112 16 (16 + 20)
      = Inr (4112, empty_arena\<lparr>arena := [\<lparr>base = 4096, used = 40\<rparr>]\<rparr>, heap_of [])
   \<and> ArenaAllocator_round_size_up 20 = 24"
proof -
  have al: "ArenaAllocator_alloc empty_arena (heap_of [4096]) 16
      = Inr (4112, empty_arena\<lparr>arena := [\<lparr>base = 4096, used = 16\<rparr>]\<rparr>, heap_of [])"
    by (simp add: consts_simps ArenaAllocator_round_size_up_def ArenaAllocator_alloc_def
      ArenaAllocator_alloc_arena_def malloc_def heap_of_def empty_arena_def buff_def)
  have r: "ArenaAllocator_round_size_up 36 = 40" "ArenaAllocator_round_size_up 16 = 16"
    "ArenaAllocator_round_size_up 20 = 24"
    by (simp_all add: ArenaAllocator_round_size_up_def)
  show ?thesis
    using realloc_in_place [OF al, where k = 20 and blk = "\<lparr>base = 4096, used = 16\<rparr>"
        and older = "[]"] al
    by (simp add: r consts_simps empty_arena_def)
qed

subsection \<open>The recording and testing allocators\<close>

lemma find_slot_absent:
  "addr a \<noteq> 0 \<Longrightarrow> n \<le> length (cells a) \<Longrightarrow> d \<notin> set (take n (cells a))
   \<Longrightarrow> find_slot a d n = Inr None"
proof (induction n)
  case 0
  then show ?case by simp
next
  case (Suc n)
  then have n: "n < length (cells a)" by simp
  have "d \<noteq> cells a ! n" "d \<notin> set (take n (cells a))"
    using Suc.prems(3) by (simp_all add: take_Suc_conv_app_nth [OF n])
  then show ?case using Suc n by (simp add: rd_def)
qed

lemma find_slot_last:
  "addr a \<noteq> 0 \<Longrightarrow> n \<le> length (cells a) \<Longrightarrow> i < n \<Longrightarrow> cells a ! i = d
   \<Longrightarrow> \<forall>j \<in> {i <..< n}. cells a ! j \<noteq> d
   \<Longrightarrow> find_slot a d n = Inr (Some i)"
proof (induction n)
  case 0
  then show ?case by simp
next
  case (Suc n)
  show ?case
  proof (cases "i = n")
    case True
    then show ?thesis using Suc.prems by (simp add: rd_def)
  next
    case False
    then have "i < n" using Suc.prems(3) by simp
    moreover have "cells a ! n \<noteq> d" using Suc.prems(5) \<open>i < n\<close> by simp
    moreover have "\<forall>j \<in> {i <..< n}. cells a ! j \<noteq> d" using Suc.prems(5) by simp
    ultimately show ?thesis using Suc by (auto simp: rd_def)
  qed
qed

lemma trim_result:
  "addr s \<noteq> 0 \<Longrightarrow> n \<le> length (cells s)
   \<Longrightarrow> \<exists>c. trim s n = Inr c \<and> c \<le> n
           \<and> (\<forall>j \<in> {c ..< n}. cells s ! j = 0)
           \<and> (c = 0 \<or> cells s ! (c - 1) \<noteq> 0)"
proof (induction n)
  case 0
  then show ?case by simp
next
  case (Suc n)
  show ?case
  proof (cases "cells s ! n = 0")
    case True
    from Suc obtain c where c: "trim s n = Inr c" "c \<le> n"
      "\<forall>j \<in> {c ..< n}. cells s ! j = 0" "c = 0 \<or> cells s ! (c - 1) \<noteq> 0"
      by auto
    have "\<forall>j \<in> {c ..< Suc n}. cells s ! j = 0"
      using c(3) True by (auto simp: less_Suc_eq)
    then show ?thesis using c True Suc.prems by (auto simp: rd_def)
  next
    case False
    then show ?thesis using Suc.prems by (auto simp: rd_def)
  qed
qed

text \<open>
  What \<^verbatim>\<open>free\<close> does on a ledger in use, under the recording and the testing allocator
  alike.  A non-null pointer that no slot below \<open>count\<close> holds, or whose slot records
  another size, ends the process by a failed assertion.  When the size matches, the
  pointer is released to the heap, its slot is nulled (address and size), and the count is
  trimmed by recorded size: every slot from the new count up to the old one has size 0,
  be it a freed slot or a live block of size 0.
\<close>

lemma recording_free_cases:
  assumes ok: "ledger_ok r" and d: "d \<noteq> 0" and ta: "recorder ta = r"
  shows "(d \<notin> set (take (count r) (cells (allocations r)))
            \<longrightarrow> recording_free r h d sz = Inl AssertFail
                \<and> testing_free ta h d sz = Inl AssertFail)
       \<and> (\<forall>i. slot_of r d i \<and> cells (allocation_sizes r) ! i \<noteq> sz
            \<longrightarrow> recording_free r h d sz = Inl AssertFail
                \<and> testing_free ta h d sz = Inl AssertFail)
       \<and> (\<forall>i. slot_of r d i \<and> cells (allocation_sizes r) ! i = sz
            \<longrightarrow> (\<exists>r'. recording_free r h d sz = Inr (r', h\<lparr>released := d # released h\<rparr>)
                     \<and> testing_free ta h d sz
                         = Inr (ta\<lparr>recorder := r'\<rparr>, h\<lparr>released := d # released h\<rparr>)
                     \<and> cells (allocations r') = (cells (allocations r))[i := 0]
                     \<and> cells (allocation_sizes r') = (cells (allocation_sizes r))[i := 0]
                     \<and> count r' \<le> count r
                     \<and> (\<forall>j \<in> {count r' ..< count r}. cells (allocation_sizes r') ! j = 0)
                     \<and> (count r' = 0 \<or> cells (allocation_sizes r') ! (count r' - 1) \<noteq> 0)))"
proof (intro conjI allI impI)
  assume "d \<notin> set (take (count r) (cells (allocations r)))"
  then have "find_slot (allocations r) d (count r) = Inr None"
    using ok by (cases "count r = 0") (auto simp: ledger_ok_def intro: find_slot_absent)
  then show "recording_free r h d sz = Inl AssertFail"
    using d by (simp add: recording_free_def)
  then show "testing_free ta h d sz = Inl AssertFail"
    using ta by (simp add: testing_free_def)
next
  fix i
  assume "slot_of r d i \<and> cells (allocation_sizes r) ! i \<noteq> sz"
  then have s: "slot_of r d i" and ne: "cells (allocation_sizes r) ! i \<noteq> sz" by auto
  have pos: "count r \<noteq> 0" using s by (auto simp: slot_of_def)
  then have f: "find_slot (allocations r) d (count r) = Inr (Some i)"
    using ok s by (auto simp: ledger_ok_def slot_of_def intro!: find_slot_last)
  have "rd (allocation_sizes r) i = Inr (cells (allocation_sizes r) ! i)"
    using ok s pos by (auto simp: ledger_ok_def slot_of_def rd_def)
  then show "recording_free r h d sz = Inl AssertFail"
    using d f ne by (auto simp: recording_free_def)
  then show "testing_free ta h d sz = Inl AssertFail"
    using ta by (simp add: testing_free_def)
next
  fix i
  assume "slot_of r d i \<and> cells (allocation_sizes r) ! i = sz"
  then have s: "slot_of r d i" and eq: "cells (allocation_sizes r) ! i = sz" by auto
  have pos: "count r \<noteq> 0" using s by (auto simp: slot_of_def)
  have a: "addr (allocations r) \<noteq> 0" "addr (allocation_sizes r) \<noteq> 0"
    "count r \<le> length (cells (allocations r))" "count r \<le> length (cells (allocation_sizes r))"
    "i < count r"
    using ok s pos by (auto simp: ledger_ok_def slot_of_def)
  have f: "find_slot (allocations r) d (count r) = Inr (Some i)"
    using a s by (auto simp: slot_of_def intro!: find_slot_last)
  have rs: "rd (allocation_sizes r) i = Inr sz"
    using a eq by (auto simp: rd_def)
  define s' where "s' = (allocation_sizes r)\<lparr>cells := (cells (allocation_sizes r))[i := 0]\<rparr>"
  define a' where "a' = (allocations r)\<lparr>cells := (cells (allocations r))[i := 0]\<rparr>"
  have w: "wr (allocations r) i 0 = Inr a'" "wr (allocation_sizes r) i 0 = Inr s'"
    using a by (auto simp: wr_def a'_def s'_def)
  have "addr s' \<noteq> 0" "count r \<le> length (cells s')" using a by (simp_all add: s'_def)
  from trim_result [OF this] obtain c where c: "trim s' (count r) = Inr c" "c \<le> count r"
    "\<forall>j \<in> {c ..< count r}. cells s' ! j = 0" "c = 0 \<or> cells s' ! (c - 1) \<noteq> 0"
    by auto
  define r' where "r' = r\<lparr>allocations := a', allocation_sizes := s', count := c\<rparr>"
  have v: "vacate r i = Inr r'" using w c(1) by (simp add: vacate_def r'_def)
  have rf: "recording_free r h d sz = Inr (r', h\<lparr>released := d # released h\<rparr>)"
    using d f rs v by (simp add: recording_free_def free_def)
  show "\<exists>r'. recording_free r h d sz = Inr (r', h\<lparr>released := d # released h\<rparr>)
          \<and> testing_free ta h d sz = Inr (ta\<lparr>recorder := r'\<rparr>, h\<lparr>released := d # released h\<rparr>)
          \<and> cells (allocations r') = (cells (allocations r))[i := 0]
          \<and> cells (allocation_sizes r') = (cells (allocation_sizes r))[i := 0]
          \<and> count r' \<le> count r
          \<and> (\<forall>j \<in> {count r' ..< count r}. cells (allocation_sizes r') ! j = 0)
          \<and> (count r' = 0 \<or> cells (allocation_sizes r') ! (count r' - 1) \<noteq> 0)"
    apply (rule exI [where x = r'])
    using rf c ta by (simp add: testing_free_def r'_def a'_def s'_def)
qed






subsection \<open>Calls that succeed\<close>

lemma grow_shape:
  "addr (grow a p n) = p"
  "p \<noteq> 0 \<Longrightarrow> length (cells a) \<le> n \<Longrightarrow> length (cells (grow a p n)) = n"
  "p \<noteq> 0 \<Longrightarrow> i < length (cells a) \<Longrightarrow> cells (grow a p n) ! i = cells a ! i"
  by (simp_all add: grow_def nth_append)


























text \<open>
  Claim C4 fails on the code.  A ledger tracks the block 4096 of 8 bytes; the heap refuses
  to grow it to 16 bytes.  \<^verbatim>\<open>recording_realloc\<close> returns the empty pointer, but it has
  vacated the slot of the block and recorded \<open>(NULL, 16)\<close> in its place: the block, which
  the failed \<^verbatim>\<open>realloc\<close> left alive, is no longer tracked, and freeing it now ends the
  process.  \<^verbatim>\<open>recording_alloc\<close>, on the same ledger and the same failing heap, returns
  the empty pointer and the ledger as it was.
\<close>

theorem realloc_failure_changes_ledger:
  "recording_alloc new_recorder (heap_of [4096, 256, 512, 0]) 8
     = Inr (4096,
            \<lparr>allocations = \<lparr>addr = 256, cells = (replicate 32 0)[0 := 4096]\<rparr>,
              allocation_sizes = \<lparr>addr = 512, cells = (replicate 32 0)[0 := 8]\<rparr>,
              count = 1, capacity = 32\<rparr>,
            heap_of [0])
   \<and> recording_realloc
        \<lparr>allocations = \<lparr>addr = 256, cells = (replicate 32 0)[0 := 4096]\<rparr>,
          allocation_sizes = \<lparr>addr = 512, cells = (replicate 32 0)[0 := 8]\<rparr>,
          count = 1, capacity = 32\<rparr>
        (heap_of [0]) 4096 8 16
     = Inr (0,
            \<lparr>allocations = \<lparr>addr = 256, cells = (replicate 32 0)[0 := 0]\<rparr>,
              allocation_sizes = \<lparr>addr = 512, cells = (replicate 32 0)[0 := 16]\<rparr>,
              count = 1, capacity = 32\<rparr>,
            heap_of [])
   \<and> recording_free
        \<lparr>allocations = \<lparr>addr = 256, cells = (replicate 32 0)[0 := 0]\<rparr>,
          allocation_sizes = \<lparr>addr = 512, cells = (replicate 32 0)[0 := 16]\<rparr>,
          count = 1, capacity = 32\<rparr>
        (heap_of []) 4096 8
     = Inl AssertFail
   \<and> recording_alloc
        \<lparr>allocations = \<lparr>addr = 256, cells = (replicate 32 0)[0 := 4096]\<rparr>,
          allocation_sizes = \<lparr>addr = 512, cells = (replicate 32 0)[0 := 8]\<rparr>,
          count = 1, capacity = 32\<rparr>
        (heap_of [0]) 16
     = Inr (0,
            \<lparr>allocations = \<lparr>addr = 256, cells = (replicate 32 0)[0 := 4096]\<rparr>,
              allocation_sizes = \<lparr>addr = 512, cells = (replicate 32 0)[0 := 8]\<rparr>,
              count = 1, capacity = 32\<rparr>,
            heap_of [])"
  by (simp add: recording_alloc_def recording_realloc_def recording_free_def
      recording_ensure_capacity_def record_entry_def vacate_def new_recorder_def heap_of_def
      malloc_def sane_realloc_def grow_def INITIAL_CAPACITY_def wr_def rd_def)

text \<open>
  Claim C8 fails on the code.  A block \<open>p\<close> of size 0 and then a block \<open>q\<close> of 8 bytes are
  recorded; \<open>p\<close> is tracked with size 0.  Freeing \<open>q\<close> trims the count past the slot of \<open>p\<close>
  as well, because the loop looks at the recorded size, not at the address: the slot of a
  live block is dropped.  The matching \<^verbatim>\<open>free\<close> of \<open>p\<close> with size 0 then ends the process
  as if \<open>p\<close> had never been tracked.
\<close>

theorem live_slot_trimmed:
  "recording_alloc new_recorder (heap_of [4096, 256, 512, 8192]) 0
     = Inr (4096,
            \<lparr>allocations = \<lparr>addr = 256, cells = (replicate 32 0)[0 := 4096]\<rparr>,
              allocation_sizes = \<lparr>addr = 512, cells = (replicate 32 0)[0 := 0]\<rparr>,
              count = 1, capacity = 32\<rparr>,
            heap_of [8192])
   \<and> recording_alloc
        \<lparr>allocations = \<lparr>addr = 256, cells = (replicate 32 0)[0 := 4096]\<rparr>,
          allocation_sizes = \<lparr>addr = 512, cells = (replicate 32 0)[0 := 0]\<rparr>,
          count = 1, capacity = 32\<rparr>
        (heap_of [8192]) 8
     = Inr (8192,
            \<lparr>allocations = \<lparr>addr = 256, cells = (replicate 32 0)[0 := 4096, 1 := 8192]\<rparr>,
              allocation_sizes = \<lparr>addr = 512, cells = (replicate 32 0)[0 := 0, 1 := 8]\<rparr>,
              count = 2, capacity = 32\<rparr>,
            heap_of [])
   \<and> tracked
        \<lparr>allocations = \<lparr>addr = 256, cells = (replicate 32 0)[0 := 4096, 1 := 8192]\<rparr>,
          allocation_sizes = \<lparr>addr = 512, cells = (replicate 32 0)[0 := 0, 1 := 8]\<rparr>,
          count = 2, capacity = 32\<rparr> 4096 0
   \<and> recording_free
        \<lparr>allocations = \<lparr>addr = 256, cells = (replicate 32 0)[0 := 4096, 1 := 8192]\<rparr>,
          allocation_sizes = \<lparr>addr = 512, cells = (replicate 32 0)[0 := 0, 1 := 8]\<rparr>,
          count = 2, capacity = 32\<rparr>
        (heap_of []) 8192 8
     = Inr (\<lparr>allocations = \<lparr>addr = 256, cells = (replicate 32 0)[0 := 4096, 1 := 0]\<rparr>,
              allocation_sizes = \<lparr>addr = 512, cells = (replicate 32 0)[0 := 0, 1 := 0]\<rparr>,
              count = 0, capacity = 32\<rparr>,
            (heap_of [])\<lparr>released := [8192]\<rparr>)
   \<and> recording_free
        \<lparr>allocations = \<lparr>addr = 256, cells = (replicate 32 0)[0 := 4096, 1 := 0]\<rparr>,
          allocation_sizes = \<lparr>addr = 512, cells = (replicate 32 0)[0 := 0, 1 := 0]\<rparr>,
          count = 0, capacity = 32\<rparr>
        ((heap_of [])\<lparr>released := [8192]\<rparr>) 4096 0
     = Inl AssertFail"
proof -
  have find2: "find_slot a d 2 =
      (case rd a (Suc 0) of
         Inl f \<Rightarrow> Inl f
       | Inr v \<Rightarrow> if d = v then Inr (Some (Suc 0)) else find_slot a d (Suc 0))" for a d
    by (simp add: numeral_2_eq_2)
  have trim2: "trim s 2 =
      (case rd s (Suc 0) of
         Inl f \<Rightarrow> Inl f
       | Inr v \<Rightarrow> if v = 0 then trim s (Suc 0) else Inr (Suc (Suc 0)))" for s
    by (simp add: numeral_2_eq_2)
  have t: "tracked
        \<lparr>allocations = \<lparr>addr = 256, cells = (replicate 32 0)[0 := 4096, 1 := 8192]\<rparr>,
          allocation_sizes = \<lparr>addr = 512, cells = (replicate 32 0)[0 := 0, 1 := 8]\<rparr>,
          count = 2, capacity = 32\<rparr> 4096 0"
    unfolding tracked_def slot_of_def
    by (intro disjI2 exI [where x = 0]) (auto simp: greaterThanLessThan_def dest!: less_2_cases)
  show ?thesis
    by (intro conjI t)
       (simp_all add: recording_alloc_def recording_free_def recording_ensure_capacity_def
          record_entry_def vacate_def new_recorder_def heap_of_def malloc_def free_def grow_def
          INITIAL_CAPACITY_def wr_def rd_def find2 trim2)
qed

end
